theory Spec2Isabelle
  imports Complex_Main "HOL-Library.Sublist" "HOL-Library.AList"
begin

section \<open>Python values and exceptions\<close>

text \<open>
  The service in \<^verbatim>\<open>src/service/therapy_outline_service.py\<close> is glue code: it calls a
  memory service, a patient service, a repository, the OpenAI client and the standard
  library's \<^verbatim>\<open>json.loads\<close>, and it raises or lets pass exceptions. An exception is a
  value of type \<open>error\<close>; a computation that may raise returns \<open>error + 'a\<close>.
  A Python \<^verbatim>\<open>str\<close> is a \<open>string\<close>. The messages of the exceptions that the Python runtime
  raises are those of CPython 3.12; apart from the \<^verbatim>\<open>AttributeError\<close> of a missing memory, no
  statement below depends on their wording.
\<close>

datatype error =
    ValueError string
  | JSONDecodeError string
  | AttributeError string
  | KeyError string
  | TypeError string
  | IndexError string
  | RecursionError string
  | ValidationError string
  | OtherError string string

text \<open>
  \<open>JSONDecodeError s\<close> is Python's exception of that name with \<^verbatim>\<open>str(e)\<close> equal to \<open>s\<close>
  (a subclass of \<^verbatim>\<open>ValueError\<close>, but a different class from the plain \<^verbatim>\<open>ValueError\<close> the
  service raises itself); \<open>ValidationError\<close> is the one a pydantic model raises;
  \<open>OtherError cls msg\<close> stands for any other exception a collaborator may raise.
\<close>

text \<open>The objects \<^verbatim>\<open>json.loads\<close> returns: \<^verbatim>\<open>None\<close>, \<^verbatim>\<open>bool\<close>, \<^verbatim>\<open>int\<close>, \<^verbatim>\<open>float\<close> (kept as
  its numeral, never computed with), \<^verbatim>\<open>str\<close>, \<^verbatim>\<open>list\<close> and \<^verbatim>\<open>dict\<close> (keys in insertion
  order).\<close>

datatype pyobj =
    PyNone
  | PyBool bool
  | PyInt int
  | PyFloat string
  | PyStr string
  | PyList "pyobj list"
  | PyDict "(string \<times> pyobj) list"

fun type_name :: "pyobj \<Rightarrow> string" where
  "type_name PyNone = ''NoneType''"
| "type_name (PyBool b) = ''bool''"
| "type_name (PyInt i) = ''int''"
| "type_name (PyFloat f) = ''float''"
| "type_name (PyStr s) = ''str''"
| "type_name (PyList xs) = ''list''"
| "type_name (PyDict d) = ''dict''"

text \<open>\<open>quoted s\<close> puts \<open>s\<close> between single quotes, as Python's messages do.\<close>

definition quoted :: "string \<Rightarrow> string" where
  "quoted s = [CHR 0x27] @ s @ [CHR 0x27]"

text \<open>\<^verbatim>\<open>obj[key]\<close> with a \<^verbatim>\<open>str\<close> key: only a \<^verbatim>\<open>dict\<close> can be subscripted so.\<close>

fun getitem :: "pyobj \<Rightarrow> string \<Rightarrow> error + pyobj" where
  "getitem (PyDict d) k = (case map_of d k of None \<Rightarrow> Inl (KeyError k) | Some v \<Rightarrow> Inr v)"
| "getitem (PyList xs) k = Inl (TypeError ''list indices must be integers or slices, not str'')"
| "getitem (PyStr s) k = Inl (TypeError (''string indices must be integers, not '' @ quoted ''str''))"
| "getitem v k = Inl (TypeError (quoted (type_name v) @ '' object is not subscriptable''))"

text \<open>\<^verbatim>\<open>for x in obj\<close>: a list yields its elements, a \<^verbatim>\<open>str\<close> its characters (each a
  \<^verbatim>\<open>str\<close> of length one), a \<^verbatim>\<open>dict\<close> its keys; nothing else is iterable.\<close>

fun iter :: "pyobj \<Rightarrow> error + pyobj list" where
  "iter (PyList xs) = Inr xs"
| "iter (PyStr s) = Inr (map (\<lambda>c. PyStr [c]) s)"
| "iter (PyDict d) = Inr (map (\<lambda>kv. PyStr (fst kv)) d)"
| "iter v = Inl (TypeError (quoted (type_name v) @ '' object is not iterable''))"

text \<open>A list comprehension \<^verbatim>\<open>[f(x) for x in xs]\<close>: left to right, the first exception
  ends it.\<close>

fun list_comprehension :: "('a \<Rightarrow> error + 'b) \<Rightarrow> 'a list \<Rightarrow> error + 'b list" where
  "list_comprehension f [] = Inr []"
| "list_comprehension f (x # xs) =
     (case f x of
        Inl e \<Rightarrow> Inl e
      | Inr y \<Rightarrow> (case list_comprehension f xs of Inl e \<Rightarrow> Inl e | Inr ys \<Rightarrow> Inr (y # ys)))"

section \<open>The data model\<close>

text \<open>
  Modelled from the spec: the classes \<^verbatim>\<open>Memory\<close> and \<^verbatim>\<open>Patient\<close>, which the memory and
  patient services return and which are not among the sources. Section 3 of the
  specification describes both as opaque records with serializable fields, a memory
  with at least a \<^verbatim>\<open>patient_id\<close>. The service reads \<^verbatim>\<open>memory.patient_id\<close> and calls
  \<^verbatim>\<open>model_dump(by_alias=True)\<close> on both; the dumped dictionaries are only ever formatted
  into the prompt, so their type is the parameter \<open>'d\<close>.
\<close>

record 'd Memory =
  patient_id :: string
  memory_model_dump :: 'd

record 'd Patient =
  patient_model_dump :: 'd

text \<open>The dictionary \<^verbatim>\<open>input_data\<close> of lines 38-42, with its three fixed keys.\<close>

record 'd input_data =
  memory_id :: string
  memory_details :: 'd
  patient_details :: 'd

text \<open>
  Modelled from the spec: the classes \<^verbatim>\<open>Step\<close> and \<^verbatim>\<open>TherapyOutline\<close> of the repository's
  module \<^verbatim>\<open>model\<close>, which is not among the sources. Section 3 of the specification gives
  their fields: a step has a position, a description, guidance strings, a category tag
  (\<^verbatim>\<open>type\<close>, one of INTRODUCTION, NORMAL and CONCLUSION), media URLs and a script with a
  voice from a fixed set and a text (\<^verbatim>\<open>text\<close>); an outline has a \<^verbatim>\<open>patient_id\<close>, a
  \<^verbatim>\<open>memory_id\<close> and its steps in order. The voices are the six that the prompt of the
  source lists. The fields \<^verbatim>\<open>type\<close> and \<^verbatim>\<open>text\<close> are \<open>step_type\<close> and \<open>script_text\<close> here.
\<close>

datatype StepType = INTRODUCTION | NORMAL | CONCLUSION

datatype Voice = alloy | echo | fable | onyx | nova | shimmer

record Script =
  voice :: Voice
  script_text :: string

record Step =
  step :: int
  description :: string
  guide :: "string list"
  step_type :: StepType
  media_urls :: "string list"
  script :: Script

record TherapyOutline =
  patient_id :: string
  memory_id :: string
  steps :: "Step list"

text \<open>
  The request of \<^verbatim>\<open>openai.chat.completions.create\<close> (lines 61-83): the keyword arguments
  \<^verbatim>\<open>model\<close>, \<^verbatim>\<open>messages\<close> and \<^verbatim>\<open>temperature\<close>; a message is a dictionary with the keys
  \<^verbatim>\<open>role\<close> and \<^verbatim>\<open>content\<close>, a content part one with the keys \<^verbatim>\<open>type\<close> and \<^verbatim>\<open>text\<close>.
  The Python literal \<^verbatim>\<open>0.2\<close> is the number it denotes.
\<close>

record content_part =
  part_type :: string
  part_text :: string

record chat_message =
  role :: string
  content :: "content_part list"

record chat_request =
  model :: string
  messages :: "chat_message list"
  temperature :: real

text \<open>The response, as far as line 86 reads it: \<^verbatim>\<open>response.choices[0].message.content\<close>.
  The client types \<^verbatim>\<open>content\<close> as an optional \<^verbatim>\<open>str\<close>.\<close>

record ChatCompletionMessage =
  message_content :: "string option"

record Choice =
  message :: ChatCompletionMessage

record ChatCompletion =
  choices :: "Choice list"

section \<open>Collaborators and effects\<close>

text \<open>
  What the service object holds and calls. The collaborators (\<^verbatim>\<open>self.memory_service\<close>,
  \<^verbatim>\<open>self.patient_service\<close>, \<^verbatim>\<open>self.therapy_outline_repository\<close>, \<^verbatim>\<open>self.openai\<close>) are
  not part of the file and are parameters: each call returns a value or raises. The
  memory service may return \<^verbatim>\<open>None\<close>; the patient service returns a patient (section 6 of
  the specification gives the two signatures). Two functions of the Python runtime
  are parameters as well, since the file applies them to data it does not build itself:
  \<^verbatim>\<open>json.loads\<close>, and the \<^verbatim>\<open>str\<close> of a dumped dictionary (the f-string of lines 92-130
  formats both dumps with it).
\<close>

record 'd service =
  get_memory_by_id :: "string \<Rightarrow> error + 'd Memory option"
  get_patient_by_id :: "string \<Rightarrow> error + 'd Patient"
  repository_get_therapy_outline_by_memory_id :: "string \<Rightarrow> error + TherapyOutline"
  save_therapy_outline :: "TherapyOutline \<Rightarrow> error + string"
  chat_completions_create :: "chat_request \<Rightarrow> error + ChatCompletion"
  json_loads :: "string \<Rightarrow> error + pyobj"
  str_of_dump :: "'d \<Rightarrow> string"

text \<open>
  The effects of a run are the calls it makes on the collaborators and the logger, in
  order. An action takes the trace so far and returns its outcome and the extended
  trace.
\<close>

datatype event =
    LogInfo string string
  | GetMemoryById string
  | GetPatientById string
  | GetTherapyOutlineByMemoryId string
  | SaveTherapyOutline TherapyOutline
  | ChatCompletionsCreate chat_request

type_synonym 'a action = "event list \<Rightarrow> (error + 'a) \<times> event list"

definition raise :: "error \<Rightarrow> 'a action" where
  "raise e = (\<lambda>tr. (Inl e, tr))"

text \<open>A pure computation that may raise.\<close>

definition lift :: "error + 'a \<Rightarrow> 'a action" where
  "lift r = (\<lambda>tr. (r, tr))"

text \<open>A call on a collaborator: the call is recorded, its outcome returned or raised.\<close>

definition invoke :: "event \<Rightarrow> error + 'a \<Rightarrow> 'a action" where
  "invoke ev r = (\<lambda>tr. (r, tr @ [ev]))"

text \<open>Sequencing: an exception ends the run.\<close>

definition and_then :: "'a action \<Rightarrow> ('a \<Rightarrow> 'b action) \<Rightarrow> 'b action" where
  "and_then m f = (\<lambda>tr. case m tr of (Inl e, tr') \<Rightarrow> (Inl e, tr') | (Inr x, tr') \<Rightarrow> f x tr')"

text \<open>\<^verbatim>\<open>self.logger.info(fmt, arg)\<close>.\<close>

definition logger_info :: "string \<Rightarrow> string \<Rightarrow> unit action" where
  "logger_info fmt arg = invoke (LogInfo fmt arg) (Inr ())"

text \<open>The \<^verbatim>\<open>str\<close> of an optional \<^verbatim>\<open>str\<close>, as \<^verbatim>\<open>%s\<close> formats it.\<close>

definition str_of_optional :: "string option \<Rightarrow> string" where
  "str_of_optional s = (case s of None \<Rightarrow> ''None'' | Some t \<Rightarrow> t)"

section \<open>The service\<close>

subsection \<open>Reading an outline (lines 25-26)\<close>

text \<open>In the definitions of this section the parameters after \<open>self\<close> are bound by
  \<open>\<lambda>\<close>, so that they keep the names they have in the source (a bound name hides the
  record field of the same name).\<close>

definition get_therapy_outline_by_memory_id :: "'d service \<Rightarrow> string \<Rightarrow> TherapyOutline action" where
  "get_therapy_outline_by_memory_id self = (\<lambda>memory_id.
     invoke (GetTherapyOutlineByMemoryId memory_id)
       (repository_get_therapy_outline_by_memory_id self memory_id))"

subsection \<open>The prompt (lines 90-130)\<close>

text \<open>
  The f-string has two replacement fields, \<^verbatim>\<open>input_data["memory_details"]\<close> and
  \<^verbatim>\<open>input_data["patient_details"]\<close>; the three pieces of literal text around them follow,
  line by line (\<^verbatim>\<open>{{\<close> and \<^verbatim>\<open>}}\<close> of the f-string are single braces).
\<close>

definition template_head :: string where
  \<open>template_head = concat
    [''\<newline>'',
     ''        Generate a therapy outline in the following JSON format:\<newline>'',
     ''\<newline>'',
     ''        {\<newline>'',
     ''          "patient_id": "string",\<newline>'',
     ''          "memory_id": "string",\<newline>'',
     ''          "steps": [\<newline>'',
     ''            {\<newline>'',
     ''              "step": "int",\<newline>'',
     ''              "description": "string",\<newline>'',
     ''              "guide": ["string", "..."],\<newline>'',
     ''              "type": "string (INTRODUCTION, NORMAL, CONCLUSION)",\<newline>'',
     ''              "media_urls": ["string", "..."],\<newline>'',
     ''              "script": {\<newline>'',
     ''                "voice": "string (alloy, echo, fable, onyx, nova, shimmer)",\<newline>'',
     ''                "text": "string"\<newline>'',
     ''              }\<newline>'',
     ''            }\<newline>'',
     ''          ]\<newline>'',
     ''        }\<newline>'',
     ''\<newline>'',
     ''        Memory Details:\<newline>'',
     ''        '']\<close>

definition template_middle :: string where
  \<open>template_middle = concat
    [''\<newline>'',
     ''\<newline>'',
     ''        Patient Details:\<newline>'',
     ''        '']\<close>

definition template_tail :: string where
  \<open>template_tail = concat
    [''\<newline>'',
     ''\<newline>'',
     ''        Requirements:\<newline>'',
     ''        - Use the patient details and memory details to generate personalized steps and guidance.\<newline>'',
     ''        - Include associated media URLs for each step where applicable.\<newline>'',
     ''        - Follow a logical structure: introduction, main session, conclusion.\<newline>'',
     ''        - Provide guidance points for each step in the `guide` field.\<newline>'',
     ''        - Each step should include a script with:\<newline>'',
     ''          - A calm, relaxing, and therapist-like tone.\<newline>'',
     ''          - Simple and empathetic language to guide reflective thinking and encourage memories.\<newline>'',
     ''        - Choose one consistent voice for all steps from the following options: alloy, echo, fable, onyx, nova, shimmer.\<newline>'',
     ''        - Ensure the JSON format matches the provided structure.\<newline>'',
     ''        - Provide the output as a valid JSON object without any extra formatting or code block markers.\<newline>'',
     ''        '']\<close>

definition construct_therapy_outline_prompt :: "('d \<Rightarrow> string) \<Rightarrow> 'd input_data \<Rightarrow> string" where
  "construct_therapy_outline_prompt str = (\<lambda>input_data.
     template_head @ str (memory_details input_data) @
     template_middle @ str (patient_details input_data) @
     template_tail)"

subsection \<open>Parsing the model's output (lines 132-138)\<close>

text \<open>
  Only \<^verbatim>\<open>json.JSONDecodeError\<close> is caught and replaced by a \<^verbatim>\<open>ValueError\<close> whose message
  ends with \<^verbatim>\<open>str(e)\<close>; anything else \<^verbatim>\<open>json.loads\<close> raises passes. \<^verbatim>\<open>json.loads(None)\<close>
  raises a \<^verbatim>\<open>TypeError\<close>.
\<close>

definition parse_json_output :: "'d service \<Rightarrow> string option \<Rightarrow> error + pyobj" where
  "parse_json_output self = (\<lambda>output.
     case output of
       None \<Rightarrow> Inl (TypeError ''the JSON object must be str, bytes or bytearray, not NoneType'')
     | Some text \<Rightarrow>
         (case json_loads self text of
            Inl (JSONDecodeError e) \<Rightarrow> Inl (ValueError (''Invalid JSON output from OpenAI: '' @ e))
          | Inl e \<Rightarrow> Inl e
          | Inr v \<Rightarrow> Inr v))"

subsection \<open>Calling the model (lines 57-88)\<close>

definition therapy_outline_request :: "string \<Rightarrow> chat_request" where
  "therapy_outline_request prompt =
     \<lparr>model = ''gpt-4o'',
      messages =
        [\<lparr>role = ''system'',
          content = [\<lparr>part_type = ''text'',
                      part_text = ''You are an AI assistant specializing in reminiscence therapy.''\<rparr>]\<rparr>,
         \<lparr>role = ''user'',
          content = [\<lparr>part_type = ''text'', part_text = prompt\<rparr>]\<rparr>],
      temperature = 0.2\<rparr>"

text \<open>\<^verbatim>\<open>xs[i]\<close> for a list and an index from 0.\<close>

definition list_getitem :: "'a list \<Rightarrow> nat \<Rightarrow> error + 'a" where
  "list_getitem xs i = (if i < length xs then Inr (xs ! i) else Inl (IndexError ''list index out of range''))"

definition generate_therapy_outline :: "'d service \<Rightarrow> 'd input_data \<Rightarrow> pyobj action" where
  "generate_therapy_outline self = (\<lambda>input_data.
     let prompt = construct_therapy_outline_prompt (str_of_dump self) input_data in
     and_then (invoke (ChatCompletionsCreate (therapy_outline_request prompt))
                 (chat_completions_create self (therapy_outline_request prompt))) (\<lambda>response.
     and_then (lift (list_getitem (choices response) 0)) (\<lambda>choice.
     let output = message_content (message choice) in
     and_then (logger_info ''Therapy outline generated by OpenAI: %s'' (str_of_optional output)) (\<lambda>_.
     lift (parse_json_output self output)))))"

subsection \<open>The models \<^verbatim>\<open>Step\<close> and \<^verbatim>\<open>TherapyOutline\<close>\<close>

text \<open>Sequencing of pure computations that may raise.\<close>

definition on_success :: "error + 'a \<Rightarrow> ('a \<Rightarrow> error + 'b) \<Rightarrow> error + 'b" where
  "on_success r f = (case r of Inl e \<Rightarrow> Inl e | Inr x \<Rightarrow> f x)"

definition StepType_of :: "string \<Rightarrow> StepType option" where
  "StepType_of s =
     (if s = ''INTRODUCTION'' then Some INTRODUCTION
      else if s = ''NORMAL'' then Some NORMAL
      else if s = ''CONCLUSION'' then Some CONCLUSION
      else None)"

fun Voice_value :: "Voice \<Rightarrow> string" where
  "Voice_value alloy = ''alloy''"
| "Voice_value echo = ''echo''"
| "Voice_value fable = ''fable''"
| "Voice_value onyx = ''onyx''"
| "Voice_value nova = ''nova''"
| "Voice_value shimmer = ''shimmer''"

definition Voice_of :: "string \<Rightarrow> Voice option" where
  "Voice_of s = find (\<lambda>v. Voice_value v = s) [alloy, echo, fable, onyx, nova, shimmer]"

definition required :: "(string \<times> pyobj) list \<Rightarrow> string \<Rightarrow> error + pyobj" where
  "required d k = (case map_of d k of None \<Rightarrow> Inl (ValidationError (k @ '': Field required'')) | Some v \<Rightarrow> Inr v)"

fun as_int :: "string \<Rightarrow> pyobj \<Rightarrow> error + int" where
  "as_int k (PyInt i) = Inr i"
| "as_int k v = Inl (ValidationError (k @ '': Input should be a valid integer''))"

fun as_str :: "string \<Rightarrow> pyobj \<Rightarrow> error + string" where
  "as_str k (PyStr s) = Inr s"
| "as_str k v = Inl (ValidationError (k @ '': Input should be a valid string''))"

fun as_str_list :: "string \<Rightarrow> pyobj \<Rightarrow> error + string list" where
  "as_str_list k (PyList xs) = list_comprehension (as_str k) xs"
| "as_str_list k v = Inl (ValidationError (k @ '': Input should be a valid list''))"

definition as_StepType :: "string \<Rightarrow> pyobj \<Rightarrow> error + StepType" where
  "as_StepType k v =
     on_success (as_str k v) (\<lambda>s.
       case StepType_of s of
         None \<Rightarrow> Inl (ValidationError (k @ '': Input should be INTRODUCTION, NORMAL or CONCLUSION''))
       | Some t \<Rightarrow> Inr t)"

definition as_Voice :: "string \<Rightarrow> pyobj \<Rightarrow> error + Voice" where
  "as_Voice k v =
     on_success (as_str k v) (\<lambda>s.
       case Voice_of s of
         None \<Rightarrow> Inl (ValidationError (k @ '': Input should be alloy, echo, fable, onyx, nova or shimmer''))
       | Some t \<Rightarrow> Inr t)"

fun as_Script :: "string \<Rightarrow> pyobj \<Rightarrow> error + Script" where
  "as_Script k (PyDict d) =
     on_success (on_success (required d ''voice'') (as_Voice ''voice'')) (\<lambda>voice.
     on_success (on_success (required d ''text'') (as_str ''text'')) (\<lambda>text.
     Inr \<lparr>voice = voice, script_text = text\<rparr>))"
| "as_Script k v = Inl (ValidationError (k @ '': Input should be a valid dictionary''))"

text \<open>
  Modelled from the spec: the pydantic model \<^verbatim>\<open>Step\<close> of the repository's module
  \<^verbatim>\<open>model\<close>, which is not among the sources. Section 3 of the specification gives its
  fields (an integer position, a description, guidance strings, a category tag among
  INTRODUCTION, NORMAL and CONCLUSION, media URLs, and a script with a voice from a fixed
  set and a text); section 4.1 step 8 says that entries are mapped field for field and
  that a malformed entry raises a validation error. \<open>Step_init d\<close> is \<^verbatim>\<open>Step(**d)\<close> for a
  dictionary \<open>d\<close>: every field is required and of its type, other keys are not looked at.
  The set of voices is the one the prompt of the source lists.
\<close>

definition Step_init :: "(string \<times> pyobj) list \<Rightarrow> error + Step" where
  "Step_init d =
     on_success (on_success (required d ''step'') (as_int ''step'')) (\<lambda>step.
     on_success (on_success (required d ''description'') (as_str ''description'')) (\<lambda>description.
     on_success (on_success (required d ''guide'') (as_str_list ''guide'')) (\<lambda>guide.
     on_success (on_success (required d ''type'') (as_StepType ''type'')) (\<lambda>type.
     on_success (on_success (required d ''media_urls'') (as_str_list ''media_urls'')) (\<lambda>media_urls.
     on_success (on_success (required d ''script'') (as_Script ''script'')) (\<lambda>script.
     Inr \<lparr>step = step, description = description, guide = guide, step_type = type,
          media_urls = media_urls, script = script\<rparr>))))))"

text \<open>\<^verbatim>\<open>Step(**step)\<close>: the argument of \<^verbatim>\<open>**\<close> must be a mapping.\<close>

definition Step_kwargs :: "pyobj \<Rightarrow> error + Step" where
  "Step_kwargs = (\<lambda>step.
     case step of
       PyDict d \<Rightarrow> Step_init d
     | _ \<Rightarrow> Inl (TypeError (''Step() argument after ** must be a mapping, not '' @ type_name step)))"

subsection \<open>Generating and saving (lines 28-55)\<close>

text \<open>\<^verbatim>\<open>memory.patient_id\<close>, where \<^verbatim>\<open>memory\<close> may be \<^verbatim>\<open>None\<close>.\<close>

definition getattr_patient_id :: "'d Memory option \<Rightarrow> error + string" where
  "getattr_patient_id memory =
     (case memory of
        None \<Rightarrow> Inl (AttributeError (quoted ''NoneType'' @ '' object has no attribute '' @ quoted ''patient_id''))
      | Some m \<Rightarrow> Inr (Memory.patient_id m))"

text \<open>
  Line 32 reads \<^verbatim>\<open>memory.patient_id\<close> before line 34 tests \<^verbatim>\<open>not memory\<close>. The test is the
  \<open>None\<close> branch of the case below; a \<^verbatim>\<open>Memory\<close> object is true.
\<close>

definition generate_and_save_therapy_outline :: "'d service \<Rightarrow> string \<Rightarrow> string action" where
  "generate_and_save_therapy_outline self = (\<lambda>memory_id.
     and_then (logger_info ''Generating therapy outline for memory: %s'' memory_id) (\<lambda>_.
     and_then (invoke (GetMemoryById memory_id) (get_memory_by_id self memory_id)) (\<lambda>memory.
     and_then (lift (getattr_patient_id memory)) (\<lambda>memory_patient_id.
     and_then (invoke (GetPatientById memory_patient_id)
                 (get_patient_by_id self memory_patient_id)) (\<lambda>patient.
     case memory of
       None \<Rightarrow> raise (ValueError (''No memory found with ID: '' @ memory_id))
     | Some m \<Rightarrow>
         (let input_data =
                \<lparr>input_data.memory_id = memory_id,
                 memory_details = memory_model_dump m,
                 patient_details = patient_model_dump patient\<rparr> in
          and_then (generate_therapy_outline self input_data) (\<lambda>outline_json.
          and_then (lift (getitem outline_json ''steps'')) (\<lambda>outline_json_steps.
          and_then (lift (iter outline_json_steps)) (\<lambda>entries.
          and_then (lift (list_comprehension Step_kwargs entries)) (\<lambda>steps.
          let therapy_outline =
                \<lparr>patient_id = Memory.patient_id m, memory_id = memory_id, steps = steps\<rparr> in
          and_then (logger_info ''Saving therapy outline for memory: %s'' memory_id) (\<lambda>_.
          invoke (SaveTherapyOutline therapy_outline)
            (save_therapy_outline self therapy_outline))))))))))))"

section \<open>A JSON decoder\<close>

text \<open>
  \<^verbatim>\<open>json.loads\<close> is a parameter of the model, and every general statement below holds for
  whatever it returns. To run the service on a concrete reply, the examples use the
  decoder \<open>json_decode\<close> of this section. It follows the grammar and the messages of
  CPython's decoder (up to version 3.12): white space, objects (a repeated key keeps its
  first place and takes the last value), arrays, strings with their escapes, integers,
  floats (kept as their numerals), \<^verbatim>\<open>true\<close>, \<^verbatim>\<open>false\<close>, \<^verbatim>\<open>null\<close>, \<^verbatim>\<open>NaN\<close> and the infinities.
  Text is 8-bit here, so an escape \<^verbatim>\<open>\uXXXX\<close> above 255 has no character and is reported
  as such. The recursion is bounded by the length of the text, a bound that no text
  uses up (\<open>json_decode_not_RecursionError\<close> below).
\<close>

fun digits_of_nat :: "nat \<Rightarrow> string" where
  "digits_of_nat n =
     (if n < 10 then [''0123456789'' ! n]
      else digits_of_nat (n div 10) @ [''0123456789'' ! (n mod 10)])"

definition json_error :: "string \<Rightarrow> string \<Rightarrow> nat \<Rightarrow> error" where
  "json_error msg doc pos =
     (let seen = take pos doc;
          lineno = count_list seen CHR ''\<newline>'' + 1;
          colno = length (takeWhile (\<lambda>c. c \<noteq> CHR ''\<newline>'') (rev seen)) + 1
      in JSONDecodeError
           (msg @ '': line '' @ digits_of_nat lineno @ '' column '' @ digits_of_nat colno @
            '' (char '' @ digits_of_nat pos @ '')''))"

definition is_whitespace :: "char \<Rightarrow> bool" where
  "is_whitespace c = (c = CHR '' '' \<or> c = CHR 0x09 \<or> c = CHR 0x0A \<or> c = CHR 0x0D)"

fun skip_whitespace :: "string \<Rightarrow> nat \<Rightarrow> string \<times> nat" where
  "skip_whitespace [] pos = ([], pos)"
| "skip_whitespace (c # cs) pos =
     (if is_whitespace c then skip_whitespace cs (pos + 1) else (c # cs, pos))"

definition is_digit :: "char \<Rightarrow> bool" where
  "is_digit c = (48 \<le> (of_char c :: nat) \<and> (of_char c :: nat) \<le> 57)"

definition hex_value :: "char \<Rightarrow> nat option" where
  "hex_value c =
     (let n = (of_char c :: nat) in
      if 48 \<le> n \<and> n \<le> 57 then Some (n - 48)
      else if 65 \<le> n \<and> n \<le> 70 then Some (n - 55)
      else if 97 \<le> n \<and> n \<le> 102 then Some (n - 87)
      else None)"

definition backslash :: "char \<Rightarrow> char option" where
  "backslash c =
     (if c = CHR ''\"'' then Some CHR ''\"''
      else if c = CHR 0x5C then Some (CHR 0x5C)
      else if c = CHR ''/'' then Some CHR ''/''
      else if c = CHR ''b'' then Some (CHR 0x08)
      else if c = CHR ''f'' then Some (CHR 0x0C)
      else if c = CHR ''n'' then Some (CHR 0x0A)
      else if c = CHR ''r'' then Some (CHR 0x0D)
      else if c = CHR ''t'' then Some (CHR 0x09)
      else None)"

fun scanstring :: "string \<Rightarrow> nat \<Rightarrow> string \<Rightarrow> string \<Rightarrow> nat \<Rightarrow> error + (string \<times> string \<times> nat)" where
  "scanstring doc start acc [] pos = Inl (json_error ''Unterminated string starting at'' doc start)"
| "scanstring doc start acc (c # cs) pos =
     (if c = CHR ''\"'' then Inr (acc, cs, pos + 1)
      else if c = CHR 0x5C then
        (case cs of
           [] \<Rightarrow> Inl (json_error ''Unterminated string starting at'' doc start)
         | e # cs' \<Rightarrow>
             if e = CHR ''u'' then
               (case cs' of
                  x1 # x2 # x3 # x4 # x5 # cs'' \<Rightarrow>
                    (case (hex_value x1, hex_value x2, hex_value x3, hex_value x4) of
                       (Some h1, Some h2, Some h3, Some h4) \<Rightarrow>
                         (let uni = ((h1 * 16 + h2) * 16 + h3) * 16 + h4 in
                          if uni < 256 then scanstring doc start (acc @ [char_of uni]) (x5 # cs'') (pos + 6)
                          else Inl (OtherError ''Unrepresentable'' ''code point above 255''))
                     | _ \<Rightarrow> Inl (json_error (''Invalid '' @ [CHR 0x5C] @ ''uXXXX escape'') doc (pos + 1)))
                | _ \<Rightarrow> Inl (json_error (''Invalid '' @ [CHR 0x5C] @ ''uXXXX escape'') doc (pos + 1)))
             else
               (case backslash e of
                  None \<Rightarrow> Inl (json_error (''Invalid '' @ [CHR 0x5C] @ ''escape'') doc pos)
                | Some x \<Rightarrow> scanstring doc start (acc @ [x]) cs' (pos + 2)))
      else if (of_char c :: nat) \<le> 31 then Inl (json_error ''Invalid control character at'' doc pos)
      else scanstring doc start (acc @ [c]) cs (pos + 1))"


definition int_of_digits :: "string \<Rightarrow> int" where
  "int_of_digits ds = foldl (\<lambda>a c. 10 * a + (int (of_char c) - 48)) 0 ds"

definition match_integer :: "string \<Rightarrow> (string \<times> string) option" where
  "match_integer cs =
     (let sign = takeWhile (\<lambda>c. c = CHR ''-'') (take 1 cs);
          r = drop (length sign) cs
      in case r of
           [] \<Rightarrow> None
         | c # r' \<Rightarrow>
             if c = CHR ''0'' then Some (sign @ [c], r')
             else if is_digit c then Some (sign @ takeWhile is_digit r, dropWhile is_digit r)
             else None)"

definition match_fraction :: "string \<Rightarrow> string \<times> string" where
  "match_fraction cs =
     (case cs of
        c # r \<Rightarrow>
          if c = CHR ''.'' \<and> takeWhile is_digit r \<noteq> [] then (c # takeWhile is_digit r, dropWhile is_digit r)
          else ([], cs)
      | [] \<Rightarrow> ([], cs))"

definition match_exponent :: "string \<Rightarrow> string \<times> string" where
  "match_exponent cs =
     (case cs of
        c # r \<Rightarrow>
          if c = CHR ''e'' \<or> c = CHR ''E'' then
            (let sign = takeWhile (\<lambda>x. x = CHR ''-'' \<or> x = CHR ''+'') (take 1 r);
                 r' = drop (length sign) r
             in if takeWhile is_digit r' \<noteq> [] then (c # sign @ takeWhile is_digit r', dropWhile is_digit r')
                else ([], cs))
          else ([], cs)
      | [] \<Rightarrow> ([], cs))"

definition match_number :: "string \<Rightarrow> (pyobj \<times> string) option" where
  "match_number cs =
     (case match_integer cs of
        None \<Rightarrow> None
      | Some (integer, r1) \<Rightarrow>
          (case match_fraction r1 of (fraction, r2) \<Rightarrow>
           case match_exponent r2 of (exponent, r3) \<Rightarrow>
             if fraction \<noteq> [] \<or> exponent \<noteq> [] then Some (PyFloat (integer @ fraction @ exponent), r3)
             else if take 1 integer = ''-'' then Some (PyInt (- int_of_digits (drop 1 integer)), r3)
             else Some (PyInt (int_of_digits integer), r3)))"

definition match_constant :: "string \<Rightarrow> (pyobj \<times> nat) option" where
  "match_constant cs =
     (if take 4 cs = ''null'' then Some (PyNone, 4)
      else if take 4 cs = ''true'' then Some (PyBool True, 4)
      else if take 5 cs = ''false'' then Some (PyBool False, 5)
      else None)"

definition match_float_constant :: "string \<Rightarrow> (pyobj \<times> nat) option" where
  "match_float_constant cs =
     (if take 3 cs = ''NaN'' then Some (PyFloat ''NaN'', 3)
      else if take 8 cs = ''Infinity'' then Some (PyFloat ''Infinity'', 8)
      else if take 9 cs = ''-Infinity'' then Some (PyFloat ''-Infinity'', 9)
      else None)"

definition expecting_value :: "string \<Rightarrow> nat \<Rightarrow> error" where
  "expecting_value doc pos = json_error ''Expecting value'' doc pos"

definition expecting_comma :: "string \<Rightarrow> nat \<Rightarrow> error" where
  "expecting_comma doc pos = json_error (''Expecting '' @ quoted '','' @ '' delimiter'') doc pos"

definition expecting_colon :: "string \<Rightarrow> nat \<Rightarrow> error" where
  "expecting_colon doc pos = json_error (''Expecting '' @ quoted '':'' @ '' delimiter'') doc pos"

definition expecting_name :: "string \<Rightarrow> nat \<Rightarrow> error" where
  "expecting_name doc pos = json_error ''Expecting property name enclosed in double quotes'' doc pos"

type_synonym 'a scanned = "error + ('a \<times> string \<times> nat)"

primrec array_items ::
  "(string \<Rightarrow> nat \<Rightarrow> pyobj scanned) \<Rightarrow> nat \<Rightarrow> string \<Rightarrow> pyobj list \<Rightarrow> string \<Rightarrow> nat \<Rightarrow> pyobj scanned"
where
  "array_items scan 0 doc acc cs pos = Inl (RecursionError ''maximum recursion depth exceeded'')"
| "array_items scan (Suc n) doc acc cs pos =
     on_success (scan cs pos) (\<lambda>(v, r, p).
       case skip_whitespace r p of
         ([], p1) \<Rightarrow> Inl (expecting_comma doc p1)
       | (c # r1, p1) \<Rightarrow>
           if c = CHR '']'' then Inr (PyList (acc @ [v]), r1, p1 + 1)
           else if c = CHR '','' then
             (case skip_whitespace r1 (p1 + 1) of (r2, p2) \<Rightarrow> array_items scan n doc (acc @ [v]) r2 p2)
           else Inl (expecting_comma doc p1))"

primrec object_pairs ::
  "(string \<Rightarrow> nat \<Rightarrow> pyobj scanned) \<Rightarrow> nat \<Rightarrow> string \<Rightarrow> (string \<times> pyobj) list \<Rightarrow> string \<Rightarrow> nat \<Rightarrow> pyobj scanned"
where
  "object_pairs scan 0 doc acc cs pos = Inl (RecursionError ''maximum recursion depth exceeded'')"
| "object_pairs scan (Suc n) doc acc cs pos =
     on_success (scanstring doc pos [] cs (pos + 1)) (\<lambda>(key, r, p).
       case skip_whitespace r p of
         ([], p1) \<Rightarrow> Inl (expecting_colon doc p1)
       | (c # r1, p1) \<Rightarrow>
           if c \<noteq> CHR '':'' then Inl (expecting_colon doc p1)
           else
             (case skip_whitespace r1 (p1 + 1) of (r2, p2) \<Rightarrow>
                on_success (scan r2 p2) (\<lambda>(v, r3, p3).
                  case skip_whitespace r3 p3 of
                    ([], p4) \<Rightarrow> Inl (expecting_comma doc p4)
                  | (c' # r4, p4) \<Rightarrow>
                      if c' = CHR ''}'' then Inr (PyDict (AList.update key v acc), r4, p4 + 1)
                      else if c' = CHR '','' then
                        (case skip_whitespace r4 (p4 + 1) of
                           ([], p5) \<Rightarrow> Inl (expecting_name doc p5)
                         | (q # r5, p5) \<Rightarrow>
                             if q = CHR ''\"'' then object_pairs scan n doc (AList.update key v acc) r5 p5
                             else Inl (expecting_name doc p5))
                      else Inl (expecting_comma doc p4))))"

primrec scan_once :: "nat \<Rightarrow> string \<Rightarrow> string \<Rightarrow> nat \<Rightarrow> pyobj scanned" where
  "scan_once 0 doc cs pos = Inl (RecursionError ''maximum recursion depth exceeded'')"
| "scan_once (Suc n) doc cs pos =
     (case cs of
        [] \<Rightarrow> Inl (expecting_value doc pos)
      | c # rest \<Rightarrow>
          if c = CHR ''\"'' then
            on_success (scanstring doc pos [] rest (pos + 1)) (\<lambda>(s, r, p). Inr (PyStr s, r, p))
          else if c = CHR ''{'' then
            (case skip_whitespace rest (pos + 1) of
               ([], p) \<Rightarrow> Inl (expecting_name doc p)
             | (c' # r, p) \<Rightarrow>
                 if c' = CHR ''}'' then Inr (PyDict [], r, p + 1)
                 else if c' = CHR ''\"'' then object_pairs (scan_once n doc) n doc [] r p
                 else Inl (expecting_name doc p))
          else if c = CHR ''['' then
            (case skip_whitespace rest (pos + 1) of
               (r, p) \<Rightarrow>
                 if take 1 r = '']'' then Inr (PyList [], drop 1 r, p + 1)
                 else array_items (scan_once n doc) n doc [] r p)
          else
            (case match_constant cs of
               Some (v, k) \<Rightarrow> Inr (v, drop k cs, pos + k)
             | None \<Rightarrow>
                 (case match_number cs of
                    Some (v, r) \<Rightarrow> Inr (v, r, pos + (length cs - length r))
                  | None \<Rightarrow>
                      (case match_float_constant cs of
                         Some (v, k) \<Rightarrow> Inr (v, drop k cs, pos + k)
                       | None \<Rightarrow> Inl (expecting_value doc pos)))))"

definition json_decode :: "string \<Rightarrow> error + pyobj" where
  "json_decode doc =
     (case skip_whitespace doc 0 of (r, p) \<Rightarrow>
        on_success (scan_once (Suc (length doc)) doc r p) (\<lambda>(v, r1, p1).
          case skip_whitespace r1 p1 of
            ([], p2) \<Rightarrow> Inr v
          | (c # r2, p2) \<Rightarrow> Inl (json_error ''Extra data'' doc p2)))"

section \<open>Worked example\<close>

text \<open>
  The reply of the specification's fourth testable property (\<open>example_text\<close>), the
  object it denotes and the step it describes; then a service for the examples: one
  memory \<^verbatim>\<open>m1\<close> of patient \<^verbatim>\<open>p1\<close>, a repository that holds one outline and confirms
  every save with \<^verbatim>\<open>outline-1\<close>, a model that answers every request with the text
  \<open>reply\<close>, and \<open>json_decode\<close> for \<^verbatim>\<open>json.loads\<close>. The dumps are given by their
  renderings.
\<close>

definition example_text :: string where
  \<open>example_text = ''{"patient_id":"p1","memory_id":"m1","steps":[{"step":1,"description":"d","guide":["g1"],"type":"INTRODUCTION","media_urls":[],"script":{"voice":"alloy","text":"t"}}]}''\<close>

definition example_step :: Step where
  "example_step =
     \<lparr>step = 1, description = ''d'', guide = [''g1''], step_type = INTRODUCTION,
      media_urls = [], script = \<lparr>voice = alloy, script_text = ''t''\<rparr>\<rparr>"

definition example_document :: pyobj where
  "example_document =
     PyDict
       [(''patient_id'', PyStr ''p1''), (''memory_id'', PyStr ''m1''),
        (''steps'',
         PyList
           [PyDict
              [(''step'', PyInt 1), (''description'', PyStr ''d''),
               (''guide'', PyList [PyStr ''g1'']),
               (''type'', PyStr ''INTRODUCTION''),
               (''media_urls'', PyList []),
               (''script'', PyDict [(''voice'', PyStr ''alloy''), (''text'', PyStr ''t'')])]])]"

definition example_memory :: "string Memory" where
  \<open>example_memory =
     \<lparr>Memory.patient_id = ''p1'', memory_model_dump = ''{"title": "Wedding day"}''\<rparr>\<close>

definition example_patient :: "string Patient" where
  \<open>example_patient = \<lparr>patient_model_dump = ''{"name": "Ada"}''\<rparr>\<close>

definition example_outline :: TherapyOutline where
  "example_outline = \<lparr>patient_id = ''p1'', memory_id = ''m1'', steps = [example_step]\<rparr>"

definition example_response :: "string \<Rightarrow> ChatCompletion" where
  "example_response reply = \<lparr>choices = [\<lparr>message = \<lparr>message_content = Some reply\<rparr>\<rparr>]\<rparr>"

definition example_service :: "string \<Rightarrow> string service" where
  "example_service reply =
     \<lparr>get_memory_by_id = (\<lambda>i. if i = ''m1'' then Inr (Some example_memory) else Inr None),
      get_patient_by_id =
        (\<lambda>i. if i = ''p1'' then Inr example_patient else Inl (OtherError ''NotFoundError'' i)),
      repository_get_therapy_outline_by_memory_id =
        (\<lambda>i. if i = ''m1'' then Inr example_outline else Inl (OtherError ''NotFoundError'' i)),
      save_therapy_outline = (\<lambda>outline. Inr ''outline-1''),
      chat_completions_create = (\<lambda>request. Inr (example_response reply)),
      json_loads = json_decode,
      str_of_dump = (\<lambda>d. d)\<rparr>"

section \<open>Observations on a run\<close>

text \<open>The outlines handed to \<^verbatim>\<open>save_therapy_outline\<close>, and the requests sent to the model, in
  a trace.\<close>

fun saved_outlines :: "event list \<Rightarrow> TherapyOutline list" where
  "saved_outlines [] = []"
| "saved_outlines (SaveTherapyOutline outline # tr) = outline # saved_outlines tr"
| "saved_outlines (ev # tr) = saved_outlines tr"

fun model_calls :: "event list \<Rightarrow> chat_request list" where
  "model_calls [] = []"
| "model_calls (ChatCompletionsCreate request # tr) = request # model_calls tr"
| "model_calls (ev # tr) = model_calls tr"

text \<open>The request that a run for \<open>memory_id\<close> sends once the memory \<open>m\<close> and the patient
  \<open>p\<close> are resolved.\<close>

definition request_for :: "'d service \<Rightarrow> string \<Rightarrow> 'd Memory \<Rightarrow> 'd Patient \<Rightarrow> chat_request" where
  "request_for self mid m p =
     therapy_outline_request
       (construct_therapy_outline_prompt (str_of_dump self)
          \<lparr>input_data.memory_id = mid,
           memory_details = memory_model_dump m,
           patient_details = patient_model_dump p\<rparr>)"

text \<open>The markdown code fence.\<close>

definition code_fence :: string where
  \<open>code_fence = ''```''\<close>

fun has_code_fence :: "string \<Rightarrow> bool" where
  "has_code_fence (a # b # c # cs) =
     ((a = CHR 0x60 \<and> b = CHR 0x60 \<and> c = CHR 0x60) \<or> has_code_fence (b # c # cs))"
| "has_code_fence cs = False"

text \<open>
  A step entry that \<^verbatim>\<open>Step(**entry)\<close> accepts, and a parsed response whose \<^verbatim>\<open>steps\<close> the
  comprehension of line 51 does not get through: not a dictionary, no key \<^verbatim>\<open>steps\<close>, a
  value that cannot be iterated, or one whose iteration yields an entry that is not
  accepted. (Iterating a string yields its characters, iterating a dictionary its keys;
  none is a step entry.)
\<close>

definition well_formed_step :: "pyobj \<Rightarrow> bool" where
  "well_formed_step entry =
     (case entry of
        PyDict d \<Rightarrow> (case Step_init d of Inl e \<Rightarrow> False | Inr s \<Rightarrow> True)
      | _ \<Rightarrow> False)"

definition steps_rejected :: "pyobj \<Rightarrow> bool" where
  "steps_rejected v =
     (case v of
        PyDict d \<Rightarrow>
          (case map_of d ''steps'' of
             None \<Rightarrow> True
           | Some (PyList entries) \<Rightarrow> \<not> list_all well_formed_step entries
           | Some (PyStr s) \<Rightarrow> s \<noteq> []
           | Some (PyDict kv) \<Rightarrow> kv \<noteq> []
           | Some _ \<Rightarrow> True)
      | _ \<Rightarrow> True)"

text \<open>The exceptions of a malformed shape: a failed lookup, a wrong type, a failed
  validation; not the \<^verbatim>\<open>ValueError\<close> of the parse branch.\<close>

fun shape_error :: "error \<Rightarrow> bool" where
  "shape_error (KeyError k) = True"
| "shape_error (TypeError s) = True"
| "shape_error (ValidationError s) = True"
| "shape_error e = False"

text \<open>
  The outline document as section 4.1 (step 4) of the specification words it: a single
  JSON object with the keys \<^verbatim>\<open>patient_id\<close>, \<^verbatim>\<open>memory_id\<close> and \<^verbatim>\<open>steps\<close>, the last an array
  of step objects.
\<close>

definition outline_document :: "pyobj \<Rightarrow> bool" where
  "outline_document v =
     (case v of
        PyDict d \<Rightarrow>
          (case (map_of d ''patient_id'', map_of d ''memory_id'', map_of d ''steps'') of
             (Some (PyStr p), Some (PyStr m), Some (PyList entries)) \<Rightarrow>
               list_all well_formed_step entries
           | _ \<Rightarrow> False)
      | _ \<Rightarrow> False)"

section \<open>Running actions\<close>

lemma raise_apply [simp]: "raise e tr = (Inl e, tr)"
  by (simp add: raise_def)

lemma lift_apply [simp]: "lift r tr = (r, tr)"
  by (simp add: lift_def)

lemma invoke_apply [simp]: "invoke ev r tr = (r, tr @ [ev])"
  by (simp add: invoke_def)

lemma logger_info_apply [simp]: "logger_info fmt arg tr = (Inr (), tr @ [LogInfo fmt arg])"
  by (simp add: logger_info_def)

lemma and_then_Inl: "m tr = (Inl e, tr') \<Longrightarrow> and_then m f tr = (Inl e, tr')"
  by (simp add: and_then_def)

lemma and_then_Inr: "m tr = (Inr x, tr') \<Longrightarrow> and_then m f tr = f x tr'"
  by (simp add: and_then_def)

lemma and_then_lift [simp]:
  "and_then (lift r) f tr = (case r of Inl e \<Rightarrow> (Inl e, tr) | Inr x \<Rightarrow> f x tr)"
  by (cases r) (simp_all add: and_then_def)

lemma and_then_invoke [simp]:
  "and_then (invoke ev r) f tr = (case r of Inl e \<Rightarrow> (Inl e, tr @ [ev]) | Inr x \<Rightarrow> f x (tr @ [ev]))"
  by (cases r) (simp_all add: and_then_def)

lemma and_then_logger_info [simp]:
  "and_then (logger_info fmt arg) f tr = f () (tr @ [LogInfo fmt arg])"
  by (simp add: and_then_def)

lemma saved_outlines_append [simp]:
  "saved_outlines (xs @ ys) = saved_outlines xs @ saved_outlines ys"
  by (induction xs rule: saved_outlines.induct) simp_all

lemma model_calls_append [simp]:
  "model_calls (xs @ ys) = model_calls xs @ model_calls ys"
  by (induction xs rule: model_calls.induct) simp_all

section \<open>Reading an outline\<close>

text \<open>
  C7. For a memory id whose outline the repository holds, \<open>get_therapy_outline_by_memory_id\<close>
  returns exactly that outline: the run is one lookup on the repository with the same
  id, and its outcome is handed back as it is.
\<close>

theorem get_therapy_outline_is_repository_lookup:
  assumes "repository_get_therapy_outline_by_memory_id self mid = Inr outline"
  shows "get_therapy_outline_by_memory_id self mid tr =
           (Inr outline, tr @ [GetTherapyOutlineByMemoryId mid])"
  using assms by (simp add: get_therapy_outline_by_memory_id_def)

theorem get_therapy_outline_is_repository_lookup_witness:
  "repository_get_therapy_outline_by_memory_id (example_service example_text) ''m1'' = Inr example_outline \<and>
   get_therapy_outline_by_memory_id (example_service example_text) ''m1'' [] =
     (Inr example_outline, [GetTherapyOutlineByMemoryId ''m1''])"
proof -
  have held: "repository_get_therapy_outline_by_memory_id (example_service example_text) ''m1'' = Inr example_outline"
    by (simp add: example_service_def)
  from get_therapy_outline_is_repository_lookup [OF held, of "[]"] held show ?thesis
    by simp
qed

section \<open>The stages of a run\<close>

text \<open>What \<open>generate_therapy_outline\<close> does, by the outcome of the call on the model.\<close>

lemma generate_therapy_outline_raises:
  assumes "chat_completions_create self
             (therapy_outline_request (construct_therapy_outline_prompt (str_of_dump self) input)) = Inl e"
  shows "generate_therapy_outline self input tr =
           (Inl e, tr @ [ChatCompletionsCreate
              (therapy_outline_request (construct_therapy_outline_prompt (str_of_dump self) input))])"
  using assms by (simp add: generate_therapy_outline_def Let_def)

lemma generate_therapy_outline_returns:
  assumes "chat_completions_create self
             (therapy_outline_request (construct_therapy_outline_prompt (str_of_dump self) input)) = Inr response"
    and "choices response = c # cs"
  shows "generate_therapy_outline self input tr =
           (parse_json_output self (message_content (message c)),
            tr @ [ChatCompletionsCreate
                    (therapy_outline_request (construct_therapy_outline_prompt (str_of_dump self) input)),
                  LogInfo ''Therapy outline generated by OpenAI: %s''
                    (str_of_optional (message_content (message c)))])"
  using assms by (simp add: generate_therapy_outline_def Let_def list_getitem_def)

lemma generate_therapy_outline_no_choice:
  assumes "chat_completions_create self
             (therapy_outline_request (construct_therapy_outline_prompt (str_of_dump self) input)) = Inr response"
    and "choices response = []"
  shows "generate_therapy_outline self input tr =
           (Inl (IndexError ''list index out of range''),
            tr @ [ChatCompletionsCreate
                    (therapy_outline_request (construct_therapy_outline_prompt (str_of_dump self) input))])"
  using assms by (simp add: generate_therapy_outline_def Let_def list_getitem_def)

text \<open>A run that resolves the memory and the patient continues with the model call and
  the construction of the outline.\<close>

lemma run_resolved:
  assumes "get_memory_by_id self mid = Inr (Some m)"
    and "get_patient_by_id self (Memory.patient_id m) = Inr p"
  shows "generate_and_save_therapy_outline self mid tr =
     (case generate_therapy_outline self
             \<lparr>input_data.memory_id = mid,
              memory_details = memory_model_dump m,
              patient_details = patient_model_dump p\<rparr>
             (tr @ [LogInfo ''Generating therapy outline for memory: %s'' mid,
                    GetMemoryById mid, GetPatientById (Memory.patient_id m)]) of
        (Inl e, tr') \<Rightarrow> (Inl e, tr')
      | (Inr v, tr') \<Rightarrow>
          (case on_success (on_success (getitem v ''steps'') iter) (list_comprehension Step_kwargs) of
             Inl e \<Rightarrow> (Inl e, tr')
           | Inr ss \<Rightarrow>
               (save_therapy_outline self
                  \<lparr>patient_id = Memory.patient_id m, memory_id = mid, steps = ss\<rparr>,
                tr' @ [LogInfo ''Saving therapy outline for memory: %s'' mid,
                       SaveTherapyOutline
                         \<lparr>patient_id = Memory.patient_id m, memory_id = mid, steps = ss\<rparr>])))"
  using assms
  by (simp add: generate_and_save_therapy_outline_def getattr_patient_id_def Let_def and_then_def
      on_success_def split: prod.splits sum.splits)

text \<open>A run whose model call returns a first choice goes on with the parsed output.\<close>

lemma run_replied:
  assumes "get_memory_by_id self mid = Inr (Some m)"
    and "get_patient_by_id self (Memory.patient_id m) = Inr p"
    and "chat_completions_create self (request_for self mid m p) = Inr response"
    and "choices response = c # cs"
  shows "generate_and_save_therapy_outline self mid tr =
     (case on_success (parse_json_output self (message_content (message c)))
             (\<lambda>v. on_success (on_success (getitem v ''steps'') iter) (list_comprehension Step_kwargs)) of
        Inl e \<Rightarrow>
          (Inl e,
           tr @ [LogInfo ''Generating therapy outline for memory: %s'' mid,
                 GetMemoryById mid, GetPatientById (Memory.patient_id m),
                 ChatCompletionsCreate (request_for self mid m p),
                 LogInfo ''Therapy outline generated by OpenAI: %s''
                   (str_of_optional (message_content (message c)))])
      | Inr ss \<Rightarrow>
          (save_therapy_outline self
             \<lparr>patient_id = Memory.patient_id m, memory_id = mid, steps = ss\<rparr>,
           tr @ [LogInfo ''Generating therapy outline for memory: %s'' mid,
                 GetMemoryById mid, GetPatientById (Memory.patient_id m),
                 ChatCompletionsCreate (request_for self mid m p),
                 LogInfo ''Therapy outline generated by OpenAI: %s''
                   (str_of_optional (message_content (message c))),
                 LogInfo ''Saving therapy outline for memory: %s'' mid,
                 SaveTherapyOutline
                   \<lparr>patient_id = Memory.patient_id m, memory_id = mid, steps = ss\<rparr>]))"
  using assms(3,4)
  by (simp add: run_resolved [OF assms(1,2)] generate_therapy_outline_returns [where cs = cs]
      request_for_def on_success_def split: sum.splits)


lemma parse_json_output_valid:
  "json_loads self out = Inr v \<Longrightarrow> parse_json_output self (Some out) = Inr v"
  by (simp add: parse_json_output_def)

section \<open>Invalid JSON\<close>


lemmas decode_simps =
  json_decode_def on_success_def json_error_def expecting_value_def expecting_comma_def
  expecting_colon_def expecting_name_def match_constant_def match_number_def match_integer_def
  match_fraction_def match_exponent_def match_float_constant_def is_digit_def is_whitespace_def
  int_of_digits_def backslash_def hex_value_def quoted_def

lemma decode_not_json:
  "json_decode ''not json'' = Inl (JSONDecodeError ''Expecting value: line 1 column 1 (char 0)'')"
  by (simp add: decode_simps)

lemma example_service_simps [simp]:
  "get_memory_by_id (example_service reply) ''m1'' = Inr (Some example_memory)"
  "get_patient_by_id (example_service reply) ''p1'' = Inr example_patient"
  "chat_completions_create (example_service reply) request = Inr (example_response reply)"
  "save_therapy_outline (example_service reply) outline = Inr ''outline-1''"
  "json_loads (example_service reply) = json_decode"
  "Memory.patient_id example_memory = ''p1''"
  "choices (example_response reply) = [\<lparr>message = \<lparr>message_content = Some reply\<rparr>\<rparr>]"
  by (simp_all add: example_service_def example_memory_def example_response_def)


section \<open>A missing memory\<close>

text \<open>
  C2. When the memory service returns \<^verbatim>\<open>None\<close> for the id, the run ends at line 32, where
  \<^verbatim>\<open>memory.patient_id\<close> is read: with an \<^verbatim>\<open>AttributeError\<close>, after the lookup of the memory and
  before any call on the patient service, the model or the repository. The \<^verbatim>\<open>ValueError\<close>
  of line 35 is never reached.
\<close>

theorem missing_memory_raises_AttributeError:
  assumes "get_memory_by_id self mid = Inr None"
  shows "generate_and_save_therapy_outline self mid tr =
           (Inl (AttributeError
                   (quoted ''NoneType'' @ '' object has no attribute '' @ quoted ''patient_id'')),
            tr @ [LogInfo ''Generating therapy outline for memory: %s'' mid, GetMemoryById mid])"
  using assms
  by (simp add: generate_and_save_therapy_outline_def getattr_patient_id_def)

theorem missing_memory_raises_AttributeError_witness:
  "get_memory_by_id (example_service example_text) ''m2'' = Inr None \<and>
   generate_and_save_therapy_outline (example_service example_text) ''m2'' [] =
     (Inl (AttributeError
             (quoted ''NoneType'' @ '' object has no attribute '' @ quoted ''patient_id'')),
      [LogInfo ''Generating therapy outline for memory: %s'' ''m2'', GetMemoryById ''m2''])"
proof -
  have none: "get_memory_by_id (example_service example_text) ''m2'' = Inr None"
    by (simp add: example_service_def)
  from missing_memory_raises_AttributeError [OF none, of "[]"] none show ?thesis
    by simp
qed

section \<open>Comprehensions and step entries\<close>

lemma list_comprehension_length:
  "list_comprehension f xs = Inr ys \<Longrightarrow> length ys = length xs"
  by (induction xs arbitrary: ys) (auto split: sum.splits)

lemma list_comprehension_Inl:
  "list_comprehension f xs = Inl e \<Longrightarrow> \<exists>x \<in> set xs. f x = Inl e"
  by (induction xs) (auto split: sum.splits)

lemma list_comprehension_Inr:
  "(\<And>x. x \<in> set xs \<Longrightarrow> \<exists>y. f x = Inr y) \<Longrightarrow> \<exists>ys. list_comprehension f xs = Inr ys"
proof (induction xs)
  case Nil
  then show ?case by simp
next
  case (Cons x xs)
  then obtain y where "f x = Inr y" by auto
  moreover from Cons obtain ys where "list_comprehension f xs = Inr ys" by auto
  ultimately show ?case by simp
qed

lemma list_comprehension_fails:
  "x \<in> set xs \<Longrightarrow> f x = Inl e \<Longrightarrow> \<exists>e'. list_comprehension f xs = Inl e'"
  by (induction xs) (auto split: sum.splits)

lemma well_formed_step_iff: "well_formed_step entry \<longleftrightarrow> (\<exists>s. Step_kwargs entry = Inr s)"
  by (cases entry) (auto simp: well_formed_step_def Step_kwargs_def split: sum.splits)

lemma on_success_Inl:
  "on_success r f = Inl e \<Longrightarrow> r = Inl e \<or> (\<exists>x. r = Inr x \<and> f x = Inl e)"
  by (cases r) (simp_all add: on_success_def)

lemma required_error: "required d k = Inl e \<Longrightarrow> shape_error e"
  by (auto simp: required_def split: option.splits)

lemma as_int_error: "as_int k v = Inl e \<Longrightarrow> shape_error e"
  by (cases v) auto

lemma as_str_error: "as_str k v = Inl e \<Longrightarrow> shape_error e"
  by (cases v) auto

lemma as_str_list_error: "as_str_list k v = Inl e \<Longrightarrow> shape_error e"
  by (cases v) (auto dest!: list_comprehension_Inl as_str_error)

lemma as_StepType_error: "as_StepType k v = Inl e \<Longrightarrow> shape_error e"
  by (auto simp: as_StepType_def dest!: on_success_Inl as_str_error split: option.splits)

lemma as_Voice_error: "as_Voice k v = Inl e \<Longrightarrow> shape_error e"
  by (auto simp: as_Voice_def dest!: on_success_Inl as_str_error split: option.splits)

lemma as_Script_error: "as_Script k v = Inl e \<Longrightarrow> shape_error e"
  by (cases v) (auto dest!: on_success_Inl required_error as_str_error as_Voice_error)

lemma Step_init_error: "Step_init d = Inl e \<Longrightarrow> shape_error e"
  unfolding Step_init_def
  by (auto dest!: on_success_Inl required_error as_int_error as_str_error as_str_list_error
      as_StepType_error as_Script_error)

lemma Step_kwargs_error: "Step_kwargs entry = Inl e \<Longrightarrow> shape_error e"
  by (cases entry) (auto simp: Step_kwargs_def dest: Step_init_error)


text \<open>The comprehension of line 51 on a parsed response: it raises one of the exceptions of
  a malformed shape exactly when the \<^verbatim>\<open>steps\<close> are rejected.\<close>

lemma getitem_error: "getitem v k = Inl e \<Longrightarrow> shape_error e"
  by (cases v) (auto split: option.splits)

lemma iter_error: "iter v = Inl e \<Longrightarrow> shape_error e"
  by (cases v) auto

lemma steps_error:
  "on_success (on_success (getitem v ''steps'') iter) (list_comprehension Step_kwargs) = Inl e
   \<Longrightarrow> shape_error e"
  by (auto dest!: on_success_Inl getitem_error iter_error list_comprehension_Inl Step_kwargs_error)

lemma Step_kwargs_PyStr: "\<exists>e. Step_kwargs (PyStr s) = Inl e"
  by (simp add: Step_kwargs_def)

lemma steps_rejected_fails:
  assumes "steps_rejected v"
  shows "\<exists>e. on_success (on_success (getitem v ''steps'') iter) (list_comprehension Step_kwargs) = Inl e"
proof (cases v)
  case (PyDict d)
  show ?thesis
  proof (cases "map_of d ''steps''")
    case None
    with PyDict show ?thesis by (simp add: on_success_def)
  next
    case (Some s)
    show ?thesis
    proof (cases s)
      case (PyList entries)
      with assms PyDict Some have "\<not> list_all well_formed_step entries"
        by (simp add: steps_rejected_def)
      then obtain x where x: "x \<in> set entries" "\<not> well_formed_step x"
        by (auto simp: list_all_iff)
      then obtain e where "Step_kwargs x = Inl e"
        by (cases "Step_kwargs x") (auto simp: well_formed_step_iff)
      from list_comprehension_fails [of x entries Step_kwargs e, OF x(1) this] PyDict Some PyList
      show ?thesis
        by (auto simp: on_success_def)
    next
      case (PyStr cs)
      with assms PyDict Some obtain c cs' where "cs = c # cs'"
        by (cases cs) (auto simp: steps_rejected_def)
      with PyDict Some PyStr show ?thesis
        by (auto simp: on_success_def Step_kwargs_def)
    next
      case (PyDict kv)
      with assms \<open>v = PyDict d\<close> Some obtain k kv' where "kv = k # kv'"
        by (cases kv) (auto simp: steps_rejected_def)
      with \<open>v = PyDict d\<close> Some PyDict show ?thesis
        by (auto simp: on_success_def Step_kwargs_def)
    qed (use PyDict Some in \<open>auto simp: on_success_def\<close>)
  qed
qed (auto simp: on_success_def)

lemma steps_accepted:
  assumes "v = PyDict d" and "map_of d ''steps'' = Some (PyList entries)"
    and "list_all well_formed_step entries"
  shows "\<exists>ss. length ss = length entries \<and>
     on_success (on_success (getitem v ''steps'') iter) (list_comprehension Step_kwargs) = Inr ss"
proof -
  have "\<exists>ss. list_comprehension Step_kwargs entries = Inr ss"
  proof (rule list_comprehension_Inr)
    fix x assume "x \<in> set entries"
    with assms(3) show "\<exists>y. Step_kwargs x = Inr y"
      by (auto simp: list_all_iff well_formed_step_iff)
  qed
  then obtain ss where ss: "list_comprehension Step_kwargs entries = Inr ss" by blast
  with assms(1,2) list_comprehension_length [OF ss] show ?thesis
    by (auto simp: on_success_def)
qed

lemma outline_document_steps:
  assumes "outline_document v"
  obtains d entries where "v = PyDict d" and "map_of d ''steps'' = Some (PyList entries)"
    and "list_all well_formed_step entries"
  using assms
  by (auto simp: outline_document_def split: pyobj.splits option.splits)

section \<open>The identifiers of the saved outline\<close>

text \<open>
  C3. Whatever the memory id: when the memory is resolved (and the patient with it) and
  the model's reply parses as a well-formed outline document, the run hands exactly one
  outline to the repository's save; its \<open>memory_id\<close> is the input id, its \<open>patient_id\<close> is
  the \<^verbatim>\<open>patient_id\<close> of the resolved memory, it has one step for each entry of the
  document, and the run returns what the save returns.
\<close>

theorem saved_outline_has_input_id_and_memory_patient:
  assumes "get_memory_by_id self mid = Inr (Some m)"
    and "get_patient_by_id self (Memory.patient_id m) = Inr p"
    and "chat_completions_create self (request_for self mid m p) = Inr response"
    and "choices response = c # cs"
    and "message_content (message c) = Some out"
    and "json_loads self out = Inr v"
    and "outline_document v"
  shows "\<exists>outline.
           saved_outlines (snd (generate_and_save_therapy_outline self mid tr)) =
             saved_outlines tr @ [outline] \<and>
           memory_id outline = mid \<and>
           patient_id outline = Memory.patient_id m \<and>
           fst (generate_and_save_therapy_outline self mid tr) = save_therapy_outline self outline"
proof -
  from assms(7) obtain d entries where "v = PyDict d"
    and "map_of d ''steps'' = Some (PyList entries)" and "list_all well_formed_step entries"
    by (rule outline_document_steps)
  from steps_accepted [OF this] obtain ss where
    "on_success (on_success (getitem v ''steps'') iter) (list_comprehension Step_kwargs) = Inr ss"
    by blast
  then show ?thesis
    by (simp add: run_replied [OF assms(1-4)] assms(5) parse_json_output_valid [OF assms(6)]
        on_success_def)
qed

section \<open>The decoder and its bound\<close>

text \<open>Every scanner consumes input when it succeeds, so a bound above the length of the
  text is never used up.\<close>

lemma json_error_not_RecursionError [simp]: "json_error msg doc pos \<noteq> RecursionError m"
  by (simp add: json_error_def Let_def)

lemma expecting_not_RecursionError [simp]:
  "expecting_value doc pos \<noteq> RecursionError m" "expecting_comma doc pos \<noteq> RecursionError m"
  "expecting_colon doc pos \<noteq> RecursionError m" "expecting_name doc pos \<noteq> RecursionError m"
  by (simp_all add: expecting_value_def expecting_comma_def expecting_colon_def expecting_name_def)

lemma skip_whitespace_length: "skip_whitespace cs pos = (r, p) \<Longrightarrow> length r \<le> length cs"
proof (induction cs arbitrary: pos)
  case Nil
  then show ?case by simp
next
  case (Cons c cs)
  show ?case
  proof (cases "is_whitespace c")
    case True
    with Cons.prems have "skip_whitespace cs (pos + 1) = (r, p)" by simp
    from Cons.IH [OF this] show ?thesis by simp
  next
    case False
    with Cons.prems show ?thesis by auto
  qed
qed

lemma match_constant_consumes:
  assumes "match_constant cs = Some (v, k)"
  shows "length (drop k cs) < length cs"
proof -
  from assms have "0 < k \<and> k \<le> length cs"
    by (auto simp: match_constant_def split: if_splits dest!: arg_cong [where f = length])
  then show ?thesis by (simp, arith)
qed

lemma match_float_constant_consumes:
  assumes "match_float_constant cs = Some (v, k)"
  shows "length (drop k cs) < length cs"
proof -
  from assms have "0 < k \<and> k \<le> length cs"
    by (auto simp: match_float_constant_def split: if_splits dest!: arg_cong [where f = length])
  then show ?thesis by (simp, arith)
qed

lemma match_integer_consumes:
  assumes "match_integer cs = Some (i, r)"
  shows "length r < length cs"
proof -
  define sign where "sign = takeWhile (\<lambda>c. c = CHR ''-'') (take 1 cs)"
  define r0 where "r0 = drop (length sign) cs"
  have r0: "length r0 \<le> length cs" by (simp add: r0_def)
  from assms obtain c r' where c: "r0 = c # r'"
    by (cases r0) (auto simp: match_integer_def Let_def sign_def r0_def)
  with assms have "r = r' \<or> r = dropWhile is_digit r0 \<and> is_digit c"
    by (auto simp: match_integer_def Let_def sign_def r0_def split: if_splits)
  then show ?thesis
  proof
    assume "r = r'"
    with c r0 show ?thesis by simp
  next
    assume a: "r = dropWhile is_digit r0 \<and> is_digit c"
    with c have "r = dropWhile is_digit r'" by simp
    then have "length r \<le> length r'" by (simp add: length_dropWhile_le)
    with c r0 show ?thesis by simp
  qed
qed

lemma match_fraction_length:
  assumes "match_fraction cs = (f, r)"
  shows "length r \<le> length cs"
proof (cases cs)
  case Nil
  with assms show ?thesis by (simp add: match_fraction_def)
next
  case (Cons c cs')
  with assms have "r = cs \<or> r = dropWhile is_digit cs'"
    by (auto simp: match_fraction_def split: if_splits)
  moreover have "length (dropWhile is_digit cs') \<le> length cs'" by (rule length_dropWhile_le)
  ultimately show ?thesis using Cons by auto
qed

lemma match_exponent_length:
  assumes "match_exponent cs = (f, r)"
  shows "length r \<le> length cs"
proof (cases cs)
  case Nil
  with assms show ?thesis by (simp add: match_exponent_def)
next
  case (Cons c cs')
  define sign where "sign = takeWhile (\<lambda>x. x = CHR ''-'' \<or> x = CHR ''+'') (take 1 cs')"
  from assms Cons have "r = cs \<or> r = dropWhile is_digit (drop (length sign) cs')"
    by (auto simp: match_exponent_def Let_def sign_def split: if_splits)
  moreover have "length (dropWhile is_digit (drop (length sign) cs')) \<le> length (drop (length sign) cs')"
    by (rule length_dropWhile_le)
  then have "length (dropWhile is_digit (drop (length sign) cs')) \<le> length cs'" by simp
  ultimately show ?thesis using Cons by auto
qed

lemma match_number_consumes:
  assumes "match_number cs = Some (v, r)"
  shows "length r < length cs"
proof -
  from assms obtain i r1 where 1: "match_integer cs = Some (i, r1)"
    by (auto simp: match_number_def split: option.splits)
  obtain f r2 where 2: "match_fraction r1 = (f, r2)" by (cases "match_fraction r1")
  obtain e r3 where 3: "match_exponent r2 = (e, r3)" by (cases "match_exponent r2")
  from assms 1 2 3 have "r = r3"
    by (auto simp: match_number_def split: if_splits)
  with match_integer_consumes [OF 1] match_fraction_length [OF 2] match_exponent_length [OF 3]
  show ?thesis by simp
qed


lemma scanstring_consumes:
  "scanstring doc start acc cs pos = Inr (s, r, p) \<Longrightarrow> length r < length cs"
proof (induction doc start acc cs pos rule: scanstring.induct)
  case (1 doc start acc pos)
  then show ?case by simp
next
  case (2 doc start acc c cs pos)
  show ?case
  proof (cases "c = CHR 0x22")
    case True
    with "2.prems" show ?thesis by simp
  next
    case quote: False
    show ?thesis
    proof (cases "c = CHR 0x5C")
      case True
      note bs = True
      show ?thesis
      proof (cases cs)
        case Nil
        with quote bs "2.prems" show ?thesis by simp
      next
        case (Cons e cs')
        show ?thesis
        proof (cases "e = CHR ''u''")
          case True
          note u = True
          from quote bs Cons u "2.prems" obtain x1 x2 x3 x4 x5 cs'' h1 h2 h3 h4
            where cs': "cs' = x1 # x2 # x3 # x4 # x5 # cs''"
              and h: "hex_value x1 = Some h1" "hex_value x2 = Some h2"
                     "hex_value x3 = Some h3" "hex_value x4 = Some h4"
              and lt: "((h1 * 16 + h2) * 16 + h3) * 16 + h4 < 256"
              and rec: "scanstring doc start (acc @ [char_of (((h1 * 16 + h2) * 16 + h3) * 16 + h4)])
                          (x5 # cs'') (pos + 6) = Inr (s, r, p)"
            by (auto simp: Let_def split: list.splits option.splits if_splits)
          from "2.IH"(1) [OF quote bs Cons u cs' refl refl refl refl refl h(1) refl h(2) refl h(3) h(4)
              refl lt rec]
          show ?thesis using Cons cs' by simp
        next
          case False
          note nu = False
          from quote bs Cons nu "2.prems" obtain x
            where x: "backslash e = Some x"
              and rec: "scanstring doc start (acc @ [x]) cs' (pos + 2) = Inr (s, r, p)"
            by (auto split: option.splits)
          from "2.IH"(2) [OF quote bs Cons nu x rec]
          show ?thesis using Cons by simp
        qed
      qed
    next
      case False
      note nbs = False
      from quote nbs "2.prems" have ctl: "\<not> (of_char c :: nat) \<le> 31"
        and rec: "scanstring doc start (acc @ [c]) cs (pos + 1) = Inr (s, r, p)"
        by (auto split: if_splits)
      from "2.IH"(3) [OF quote nbs ctl rec] show ?thesis by simp
    qed
  qed
qed


lemma scanstring_not_RecursionError:
  "scanstring doc start acc cs pos = Inl (RecursionError m) \<Longrightarrow> False"
proof (induction doc start acc cs pos rule: scanstring.induct)
  case (1 doc start acc pos)
  then show ?case by simp
next
  case (2 doc start acc c cs pos)
  show ?case
  proof (cases "c = CHR 0x22")
    case True
    with "2.prems" show ?thesis by simp
  next
    case quote: False
    show ?thesis
    proof (cases "c = CHR 0x5C")
      case True
      note bs = True
      show ?thesis
      proof (cases cs)
        case Nil
        with quote bs "2.prems" show ?thesis by simp
      next
        case (Cons e cs')
        show ?thesis
        proof (cases "e = CHR ''u''")
          case True
          note u = True
          from quote bs Cons u "2.prems" obtain x1 x2 x3 x4 x5 cs'' h1 h2 h3 h4
            where cs': "cs' = x1 # x2 # x3 # x4 # x5 # cs''"
              and h: "hex_value x1 = Some h1" "hex_value x2 = Some h2"
                     "hex_value x3 = Some h3" "hex_value x4 = Some h4"
              and lt: "((h1 * 16 + h2) * 16 + h3) * 16 + h4 < 256"
              and rec: "scanstring doc start (acc @ [char_of (((h1 * 16 + h2) * 16 + h3) * 16 + h4)])
                          (x5 # cs'') (pos + 6) = Inl (RecursionError m)"
            by (auto simp: Let_def split: list.splits option.splits if_splits)
          from "2.IH"(1) [OF quote bs Cons u cs' refl refl refl refl refl h(1) refl h(2) refl h(3) h(4)
              refl lt rec]
          show ?thesis .
        next
          case False
          note nu = False
          from quote bs Cons nu "2.prems" obtain x
            where x: "backslash e = Some x"
              and rec: "scanstring doc start (acc @ [x]) cs' (pos + 2) = Inl (RecursionError m)"
            by (auto split: option.splits)
          from "2.IH"(2) [OF quote bs Cons nu x rec]
          show ?thesis .
        qed
      qed
    next
      case False
      note nbs = False
      from quote nbs "2.prems" have ctl: "\<not> (of_char c :: nat) \<le> 31"
        and rec: "scanstring doc start (acc @ [c]) cs (pos + 1) = Inl (RecursionError m)"
        by (auto split: if_splits)
      from "2.IH"(3) [OF quote nbs ctl rec] show ?thesis .
    qed
  qed
qed

lemma array_items_bounded:
  assumes scan: "\<And>cs' pos'. length cs' \<le> L \<Longrightarrow>
      (\<forall>m. scan cs' pos' \<noteq> Inl (RecursionError m)) \<and>
      (\<forall>v r p. scan cs' pos' = Inr (v, r, p) \<longrightarrow> length r < length cs')"
  shows "length cs \<le> L \<Longrightarrow> length cs < n \<Longrightarrow>
     (\<forall>m. array_items scan n doc acc cs pos \<noteq> Inl (RecursionError m)) \<and>
     (\<forall>v r p. array_items scan n doc acc cs pos = Inr (v, r, p) \<longrightarrow> length r < length cs)"
proof (induction n arbitrary: acc cs pos)
  case 0
  then show ?case by simp
next
  case (Suc n)
  note good = scan [OF Suc.prems(1), of pos]
  show ?case
  proof (cases "scan cs pos")
    case (Inl e)
    with good show ?thesis by (auto simp: on_success_def)
  next
    case (Inr res)
    obtain v r p where res: "res = (v, r, p)" by (cases res)
    with Inr good have r: "length r < length cs" by simp
    obtain r1 p1 where ws1: "skip_whitespace r p = (r1, p1)" by (cases "skip_whitespace r p")
    note l1 = skip_whitespace_length [OF ws1]
    show ?thesis
    proof (cases r1)
      case Nil
      with Inr res ws1 show ?thesis by (simp add: on_success_def)
    next
      case (Cons c r2)
      obtain r3 p3 where ws2: "skip_whitespace r2 (p1 + 1) = (r3, p3)"
        by (cases "skip_whitespace r2 (p1 + 1)")
      note l2 = skip_whitespace_length [OF ws2]
      from r l1 l2 Cons Suc.prems have "length r3 \<le> L" "length r3 < n" "length r3 < length cs"
        "length r2 < length cs"
        by simp_all
      with Suc.IH [of r3 "acc @ [v]" p3] Inr res ws1 Cons ws2 show ?thesis
        by (auto simp: on_success_def)
    qed
  qed
qed

lemma object_pairs_bounded:
  assumes scan: "\<And>cs' pos'. length cs' \<le> L \<Longrightarrow>
      (\<forall>m. scan cs' pos' \<noteq> Inl (RecursionError m)) \<and>
      (\<forall>v r p. scan cs' pos' = Inr (v, r, p) \<longrightarrow> length r < length cs')"
  shows "length cs \<le> L \<Longrightarrow> length cs < n \<Longrightarrow>
     (\<forall>m. object_pairs scan n doc acc cs pos \<noteq> Inl (RecursionError m)) \<and>
     (\<forall>v r p. object_pairs scan n doc acc cs pos = Inr (v, r, p) \<longrightarrow> length r < length cs)"
proof (induction n arbitrary: acc cs pos)
  case 0
  then show ?case by simp
next
  case (Suc n)
  show ?case
  proof (cases "scanstring doc pos [] cs (pos + 1)")
    case (Inl e)
    with scanstring_not_RecursionError [of doc pos "[]" cs "pos + 1"] show ?thesis
      by (auto simp: on_success_def)
  next
    case (Inr res)
    obtain key r p where res: "res = (key, r, p)" by (cases res)
    with Inr have r: "length r < length cs" by (auto dest: scanstring_consumes)
    obtain r1 p1 where ws1: "skip_whitespace r p = (r1, p1)" by (cases "skip_whitespace r p")
    note l1 = skip_whitespace_length [OF ws1]
    show ?thesis
    proof (cases r1)
      case Nil
      with Inr res ws1 show ?thesis by (simp add: on_success_def)
    next
      case (Cons c r2)
      obtain r3 p3 where ws2: "skip_whitespace r2 (p1 + 1) = (r3, p3)"
        by (cases "skip_whitespace r2 (p1 + 1)")
      note l2 = skip_whitespace_length [OF ws2]
      from r l1 l2 Cons Suc.prems have r3: "length r3 \<le> L" "length r3 < length cs" by simp_all
      note good = scan [OF r3(1), of p3]
      show ?thesis
      proof (cases "scan r3 p3")
        case (Inl e)
        with good Inr res ws1 Cons ws2 show ?thesis by (auto simp: on_success_def)
      next
        case scanned: (Inr res')
        obtain v r4 p4 where res': "res' = (v, r4, p4)" by (cases res')
        with scanned good have r4: "length r4 < length r3" by simp
        obtain r5 p5 where ws3: "skip_whitespace r4 p4 = (r5, p5)" by (cases "skip_whitespace r4 p4")
        note l3 = skip_whitespace_length [OF ws3]
        show ?thesis
        proof (cases r5)
          case Nil
          with Inr res ws1 Cons ws2 scanned res' ws3 show ?thesis
            by (simp add: on_success_def)
        next
          case inner: (Cons c' r6)
          obtain r7 p7 where ws4: "skip_whitespace r6 (p5 + 1) = (r7, p7)"
            by (cases "skip_whitespace r6 (p5 + 1)")
          note l4 = skip_whitespace_length [OF ws4]
          show ?thesis
          proof (cases r7)
            case Nil
            with Inr res ws1 Cons ws2 scanned res' ws3 inner ws4 r3 r4 l3 show ?thesis
              by (auto simp: on_success_def)
          next
            case last: (Cons q r8)
            from r3 r4 l3 l4 inner last Suc.prems
            have "length r8 \<le> L" "length r8 < n" "length r8 < length cs" "length r6 < length cs"
              by simp_all
            with Suc.IH [of r8 "AList.update key v acc" p7]
              Inr res ws1 Cons ws2 scanned res' ws3 inner ws4 last
            show ?thesis
              by (auto simp: on_success_def)
          qed
        qed
      qed
    qed
  qed
qed

lemma scan_once_bounded:
  "length cs < n \<Longrightarrow>
     (\<forall>m. scan_once n doc cs pos \<noteq> Inl (RecursionError m)) \<and>
     (\<forall>v r p. scan_once n doc cs pos = Inr (v, r, p) \<longrightarrow> length r < length cs)"
proof (induction n arbitrary: cs pos)
  case 0
  then show ?case by simp
next
  case (Suc n)
  have inner: "(\<forall>m. scan_once n doc cs' pos' \<noteq> Inl (RecursionError m)) \<and>
      (\<forall>v r p. scan_once n doc cs' pos' = Inr (v, r, p) \<longrightarrow> length r < length cs')"
    if "cs \<noteq> []" "length cs' \<le> length cs - 1" for cs' pos'
  proof -
    from that Suc.prems have "length cs' < n" by (cases cs) simp_all
    then show ?thesis by (rule Suc.IH)
  qed
  show ?case
  proof (cases cs)
    case Nil
    then show ?thesis by simp
  next
    case (Cons c rest)
    then have ne: "cs \<noteq> []" by simp
    obtain r1 p1 where ws: "skip_whitespace rest (pos + 1) = (r1, p1)"
      by (cases "skip_whitespace rest (pos + 1)")
    note l1 = skip_whitespace_length [OF ws]
    from l1 Cons Suc.prems have r1: "length r1 \<le> length cs - 1" "length r1 < n" by simp_all
    consider (string) "c = CHR 0x22"
      | (object) "c \<noteq> CHR 0x22" "c = CHR ''{''"
      | (array) "c \<noteq> CHR 0x22" "c \<noteq> CHR ''{''" "c = CHR ''[''"
      | (other) "c \<noteq> CHR 0x22" "c \<noteq> CHR ''{''" "c \<noteq> CHR ''[''"
      by blast
    then show ?thesis
    proof cases
      case string
      show ?thesis
      proof (cases "scanstring doc pos [] rest (pos + 1)")
        case (Inl e)
        with scanstring_not_RecursionError [of doc pos "[]" rest "pos + 1"] Cons string
        show ?thesis by (auto simp: on_success_def)
      next
        case (Inr res)
        obtain s r p where "res = (s, r, p)" by (cases res)
        with Inr scanstring_consumes [of doc pos "[]" rest "pos + 1" s r p] Cons string
        show ?thesis by (auto simp: on_success_def)
      qed
    next
      case object
      show ?thesis
      proof (cases r1)
        case Nil
        with Cons object ws show ?thesis by simp
      next
        case inner_cons: (Cons c' r2)
        with r1 have r2: "length r2 \<le> length cs - 1" "length r2 < n" "length r2 < length rest"
          using l1 by simp_all
        from object_pairs_bounded [where scan = "scan_once n doc" and L = "length cs - 1"
            and cs = r2 and n = n and doc = doc and acc = "[]" and pos = p1, OF inner [OF ne] r2(1,2)]
        have pairs: "(\<forall>m. object_pairs (scan_once n doc) n doc [] r2 p1 \<noteq> Inl (RecursionError m)) \<and>
          (\<forall>v r p. object_pairs (scan_once n doc) n doc [] r2 p1 = Inr (v, r, p) \<longrightarrow>
             length r < length r2)" .
        from Cons r2 have shorter: "length r2 < length cs" by simp
        consider (empty) "c' = CHR ''}''" | (quoted) "c' \<noteq> CHR ''}''" "c' = CHR 0x22"
          | (neither) "c' \<noteq> CHR ''}''" "c' \<noteq> CHR 0x22"
          by blast
        then show ?thesis
        proof cases
          case empty
          with Cons object ws inner_cons
          have "scan_once (Suc n) doc cs pos = Inr (PyDict [], r2, p1 + 1)" by simp
          with shorter show ?thesis by simp
        next
          case quoted
          with Cons object ws inner_cons
          have "scan_once (Suc n) doc cs pos = object_pairs (scan_once n doc) n doc [] r2 p1"
            by simp
          with pairs shorter show ?thesis by (metis less_trans)
        next
          case neither
          with Cons object ws inner_cons
          have "scan_once (Suc n) doc cs pos = Inl (expecting_name doc p1)" by simp
          then show ?thesis by simp
        qed
      qed
    next
      case array
      from array_items_bounded [where scan = "scan_once n doc" and L = "length cs - 1"
          and cs = r1 and n = n and doc = doc and acc = "[]" and pos = p1, OF inner [OF ne] r1]
      have items: "(\<forall>m. array_items (scan_once n doc) n doc [] r1 p1 \<noteq> Inl (RecursionError m)) \<and>
        (\<forall>v r p. array_items (scan_once n doc) n doc [] r1 p1 = Inr (v, r, p) \<longrightarrow>
           length r < length r1)" .
      from Cons l1 have shorter: "length r1 < length cs" by simp
      show ?thesis
      proof (cases "take 1 r1 = '']''")
        case True
        with Cons array ws
        have "scan_once (Suc n) doc cs pos = Inr (PyList [], drop 1 r1, p1 + 1)" by simp
        moreover have "length (drop 1 r1) \<le> length r1" by simp
        ultimately show ?thesis using shorter by simp
      next
        case False
        with Cons array ws
        have "scan_once (Suc n) doc cs pos = array_items (scan_once n doc) n doc [] r1 p1"
          by simp
        with items shorter show ?thesis by (metis less_trans)
      qed
    next
      case other
      show ?thesis
      proof (cases "match_constant cs")
        case (Some vk)
        obtain v k where "vk = (v, k)" by (cases vk)
        with Some match_constant_consumes [of cs v k] Cons other show ?thesis
          by (simp del: length_drop)
      next
        case no_constant: None
        show ?thesis
        proof (cases "match_number cs")
          case (Some vr)
          obtain v r where "vr = (v, r)" by (cases vr)
          with Some match_number_consumes [of cs v r] no_constant Cons other show ?thesis
            by simp
        next
          case no_number: None
          show ?thesis
          proof (cases "match_float_constant cs")
            case (Some vk)
            obtain v k where "vk = (v, k)" by (cases vk)
            with Some match_float_constant_consumes [of cs v k] no_constant no_number Cons other
            show ?thesis by (simp del: length_drop)
          next
            case None
            with no_constant no_number Cons other show ?thesis by simp
          qed
        qed
      qed
    qed
  qed
qed

text \<open>The bound on the recursion is never reached: the decoder does not raise a
  \<^verbatim>\<open>RecursionError\<close> of its own.\<close>

lemma json_decode_not_RecursionError: "json_decode doc \<noteq> Inl (RecursionError m)"
proof -
  obtain r p where ws: "skip_whitespace doc 0 = (r, p)" by (cases "skip_whitespace doc 0")
  from skip_whitespace_length [OF ws] have "length r < Suc (length doc)" by simp
  from scan_once_bounded [OF this, of doc p]
  have "\<forall>m. scan_once (Suc (length doc)) doc r p \<noteq> Inl (RecursionError m)" by blast
  then show ?thesis
  proof (cases "scan_once (Suc (length doc)) doc r p")
    case (Inl e)
    moreover assume "\<forall>m. scan_once (Suc (length doc)) doc r p \<noteq> Inl (RecursionError m)"
    ultimately show ?thesis by (simp add: json_decode_def ws on_success_def)
  next
    case (Inr res)
    obtain v r1 p1 where res: "res = (v, r1, p1)" by (cases res)
    obtain r2 p2 where "skip_whitespace r1 p1 = (r2, p2)" by (cases "skip_whitespace r1 p1")
    with Inr res show ?thesis
      by (cases r2) (simp_all add: json_decode_def ws on_success_def)
  qed
qed

section \<open>Evaluating the example\<close>

lemma decode_example_text: "json_decode example_text = Inr example_document"
  by (simp add: decode_simps example_text_def example_document_def)

lemmas step_simps =
  Step_init_def on_success_def required_def as_StepType_def as_Voice_def StepType_of_def
  Voice_of_def

lemma Step_init_example:
  "Step_init
     [(''step'', PyInt 1), (''description'', PyStr ''d''), (''guide'', PyList [PyStr ''g1'']),
      (''type'', PyStr ''INTRODUCTION''), (''media_urls'', PyList []),
      (''script'', PyDict [(''voice'', PyStr ''alloy''), (''text'', PyStr ''t'')])] =
   Inr example_step"
  by (simp add: step_simps example_step_def)

lemma steps_of_example_document:
  "on_success (on_success (getitem example_document ''steps'') iter)
     (list_comprehension Step_kwargs) = Inr [example_step]"
  by (simp add: example_document_def on_success_def Step_kwargs_def Step_init_example)

lemma outline_document_example: "outline_document example_document"
  by (simp add: outline_document_def example_document_def well_formed_step_def Step_init_example)

theorem saved_outline_has_input_id_and_memory_patient_witness:
  "get_memory_by_id (example_service example_text) ''m1'' = Inr (Some example_memory) \<and>
   json_loads (example_service example_text) example_text = Inr example_document \<and>
   outline_document example_document \<and>
   (\<exists>outline.
      saved_outlines (snd (generate_and_save_therapy_outline (example_service example_text) ''m1'' [])) =
        [outline] \<and>
      memory_id outline = ''m1'' \<and>
      patient_id outline = Memory.patient_id example_memory \<and>
      fst (generate_and_save_therapy_outline (example_service example_text) ''m1'' []) =
        save_therapy_outline (example_service example_text) outline)"
proof -
  let ?self = "example_service example_text"
  have parsed: "json_loads ?self example_text = Inr example_document"
    by (simp add: decode_example_text)
  have "\<exists>outline.
      saved_outlines (snd (generate_and_save_therapy_outline ?self ''m1'' [])) =
        saved_outlines [] @ [outline] \<and>
      memory_id outline = ''m1'' \<and>
      patient_id outline = Memory.patient_id example_memory \<and>
      fst (generate_and_save_therapy_outline ?self ''m1'' []) = save_therapy_outline ?self outline"
    by (rule saved_outline_has_input_id_and_memory_patient
          [where p = example_patient and response = "example_response example_text"
             and c = "\<lparr>message = \<lparr>message_content = Some example_text\<rparr>\<rparr>" and cs = "[]"
             and out = example_text and v = example_document])
       (simp_all add: decode_example_text outline_document_example)
  with parsed outline_document_example show ?thesis by simp
qed

section \<open>The example reply\<close>

text \<open>
  C6. When the text of the model's first choice is exactly the reply of the
  specification's fourth testable property (and \<^verbatim>\<open>json.loads\<close> reads it as the decoder
  does), the outline that the run builds and saves has exactly one step; the type of
  that step is INTRODUCTION and the voice of its script is \<^verbatim>\<open>alloy\<close>.
\<close>

theorem example_reply_builds_one_introduction_step:
  assumes "get_memory_by_id self mid = Inr (Some m)"
    and "get_patient_by_id self (Memory.patient_id m) = Inr p"
    and "chat_completions_create self (request_for self mid m p) = Inr response"
    and "choices response = c # cs"
    and "message_content (message c) = Some example_text"
    and "json_loads self example_text = json_decode example_text"
  shows "\<exists>outline st.
           saved_outlines (snd (generate_and_save_therapy_outline self mid tr)) =
             saved_outlines tr @ [outline] \<and>
           steps outline = [st] \<and>
           step_type st = INTRODUCTION \<and>
           Voice_value (voice (script st)) = ''alloy''"
proof -
  from assms(6) have "json_loads self example_text = Inr example_document"
    by (simp add: decode_example_text)
  then have "saved_outlines (snd (generate_and_save_therapy_outline self mid tr)) =
      saved_outlines tr @
        [\<lparr>patient_id = Memory.patient_id m, memory_id = mid, steps = [example_step]\<rparr>]"
    by (simp add: run_replied [OF assms(1-4)] assms(5) parse_json_output_valid
        steps_of_example_document [unfolded on_success_def] on_success_def)
  moreover have "step_type example_step = INTRODUCTION"
    and "Voice_value (voice (script example_step)) = ''alloy''"
    by (simp_all add: example_step_def)
  ultimately show ?thesis by simp
qed

theorem example_reply_builds_one_introduction_step_witness:
  "get_memory_by_id (example_service example_text) ''m1'' = Inr (Some example_memory) \<and>
   json_loads (example_service example_text) example_text = json_decode example_text \<and>
   (\<exists>outline st.
      saved_outlines (snd (generate_and_save_therapy_outline (example_service example_text) ''m1'' [])) =
        [outline] \<and>
      steps outline = [st] \<and>
      step_type st = INTRODUCTION \<and>
      Voice_value (voice (script st)) = ''alloy'')"
proof -
  let ?self = "example_service example_text"
  have "\<exists>outline st.
      saved_outlines (snd (generate_and_save_therapy_outline ?self ''m1'' [])) =
        saved_outlines [] @ [outline] \<and>
      steps outline = [st] \<and> step_type st = INTRODUCTION \<and>
      Voice_value (voice (script st)) = ''alloy''"
    by (rule example_reply_builds_one_introduction_step
          [where m = example_memory and p = example_patient
             and response = "example_response example_text"
             and c = "\<lparr>message = \<lparr>message_content = Some example_text\<rparr>\<rparr>" and cs = "[]"])
       simp_all
  then show ?thesis by simp
qed

section \<open>Valid JSON of another shape\<close>

lemma steps_not_rejected_succeeds:
  assumes "\<not> steps_rejected v"
  shows "\<exists>ss. on_success (on_success (getitem v ''steps'') iter) (list_comprehension Step_kwargs) =
           Inr ss \<and>
         (\<forall>d s. v = PyDict d \<and> map_of d ''steps'' = Some (PyStr s) \<longrightarrow> ss = []) \<and>
         (\<forall>d kv. v = PyDict d \<and> map_of d ''steps'' = Some (PyDict kv) \<longrightarrow> ss = []) \<and>
         (\<forall>d entries. v = PyDict d \<and> map_of d ''steps'' = Some (PyList entries) \<longrightarrow>
            length ss = length entries)"
proof (cases v)
  case top: (PyDict d)
  with assms obtain s where s: "map_of d ''steps'' = Some s"
    by (auto simp: steps_rejected_def split: option.splits)
  show ?thesis
  proof (cases s)
    case (PyList entries)
    with assms top s have "list_all well_formed_step entries"
      by (simp add: steps_rejected_def)
    with steps_accepted [of v d entries] top s PyList obtain ss where
      "length ss = length entries"
      "on_success (on_success (getitem v ''steps'') iter) (list_comprehension Step_kwargs) = Inr ss"
      by blast
    with top s PyList show ?thesis
      by (intro exI [of _ ss]) simp
  next
    case (PyStr cs)
    with assms top s have "cs = []" by (simp add: steps_rejected_def)
    with top s PyStr show ?thesis by (simp add: on_success_def)
  next
    case (PyDict kv)
    with assms top s have "kv = []" by (simp add: steps_rejected_def)
    with top s PyDict show ?thesis by (simp add: on_success_def)
  qed (use assms top s in \<open>auto simp: steps_rejected_def\<close>)
qed (use assms in \<open>auto simp: steps_rejected_def\<close>)

text \<open>
  C9, as the code has it. When the reply is valid JSON but its \<^verbatim>\<open>steps\<close> are rejected (it is
  not an object, it has no key \<^verbatim>\<open>steps\<close>, the value of \<^verbatim>\<open>steps\<close> is a number, a boolean or
  \<^verbatim>\<open>null\<close>, or iterating it yields an entry that is not a well-formed step object), the run
  fails with the \<^verbatim>\<open>KeyError\<close>, \<^verbatim>\<open>TypeError\<close> or validation error that the lookup, the
  iteration or the step raises, unwrapped: it is not the \<^verbatim>\<open>ValueError\<close> of the parse branch.
  No outline is saved. In every other case exactly one outline is saved, with the
  \<^verbatim>\<open>patient_id\<close> of the resolved memory and the input id, and the run returns what the save
  returns: the keys \<^verbatim>\<open>patient_id\<close> and \<^verbatim>\<open>memory_id\<close> of the reply are not looked at. The saved
  outline has no steps when the value of \<^verbatim>\<open>steps\<close> is an empty string or an empty object,
  and one step for each entry when it is an array.
\<close>

theorem rejected_steps_fail_unwrapped_else_saved:
  assumes "get_memory_by_id self mid = Inr (Some m)"
    and "get_patient_by_id self (Memory.patient_id m) = Inr p"
    and "chat_completions_create self (request_for self mid m p) = Inr response"
    and "choices response = c # cs"
    and "message_content (message c) = Some out"
    and "json_loads self out = Inr v"
  shows "(steps_rejected v \<longrightarrow>
           (\<exists>e. fst (generate_and_save_therapy_outline self mid tr) = Inl e \<and>
                shape_error e \<and>
                saved_outlines (snd (generate_and_save_therapy_outline self mid tr)) =
                  saved_outlines tr)) \<and>
         (\<not> steps_rejected v \<longrightarrow>
           (\<exists>ss.
              saved_outlines (snd (generate_and_save_therapy_outline self mid tr)) =
                saved_outlines tr @
                  [\<lparr>patient_id = Memory.patient_id m, memory_id = mid, steps = ss\<rparr>] \<and>
              fst (generate_and_save_therapy_outline self mid tr) =
                save_therapy_outline self
                  \<lparr>patient_id = Memory.patient_id m, memory_id = mid, steps = ss\<rparr> \<and>
              (\<forall>d s. v = PyDict d \<and> map_of d ''steps'' = Some (PyStr s) \<longrightarrow> ss = []) \<and>
              (\<forall>d kv. v = PyDict d \<and> map_of d ''steps'' = Some (PyDict kv) \<longrightarrow> ss = []) \<and>
              (\<forall>d entries. v = PyDict d \<and> map_of d ''steps'' = Some (PyList entries) \<longrightarrow>
                 length ss = length entries)))"
proof (intro conjI impI)
  assume "steps_rejected v"
  from steps_rejected_fails [OF this] obtain e where
    e: "on_success (on_success (getitem v ''steps'') iter) (list_comprehension Step_kwargs) = Inl e"
    by blast
  from steps_error [OF e] e
  show "\<exists>e. fst (generate_and_save_therapy_outline self mid tr) = Inl e \<and>
      shape_error e \<and>
      saved_outlines (snd (generate_and_save_therapy_outline self mid tr)) = saved_outlines tr"
    by (simp add: run_replied [OF assms(1-4)] assms(5) parse_json_output_valid [OF assms(6)]
        on_success_def)
next
  assume "\<not> steps_rejected v"
  from steps_not_rejected_succeeds [OF this] obtain ss where
    all: "on_success (on_success (getitem v ''steps'') iter) (list_comprehension Step_kwargs) = Inr ss \<and>
      (\<forall>d s. v = PyDict d \<and> map_of d ''steps'' = Some (PyStr s) \<longrightarrow> ss = []) \<and>
      (\<forall>d kv. v = PyDict d \<and> map_of d ''steps'' = Some (PyDict kv) \<longrightarrow> ss = []) \<and>
      (\<forall>d entries. v = PyDict d \<and> map_of d ''steps'' = Some (PyList entries) \<longrightarrow>
         length ss = length entries)"
    by (rule exE)
  from all have ss:
    "on_success (on_success (getitem v ''steps'') iter) (list_comprehension Step_kwargs) = Inr ss"
    by (rule conjunct1)
  from ss have run:
    "saved_outlines (snd (generate_and_save_therapy_outline self mid tr)) =
       saved_outlines tr @ [\<lparr>patient_id = Memory.patient_id m, memory_id = mid, steps = ss\<rparr>]"
    "fst (generate_and_save_therapy_outline self mid tr) =
       save_therapy_outline self \<lparr>patient_id = Memory.patient_id m, memory_id = mid, steps = ss\<rparr>"
    by (simp_all add: run_replied [OF assms(1-4)] assms(5) parse_json_output_valid [OF assms(6)]
        on_success_def)
  show "\<exists>ss.
      saved_outlines (snd (generate_and_save_therapy_outline self mid tr)) =
        saved_outlines tr @ [\<lparr>patient_id = Memory.patient_id m, memory_id = mid, steps = ss\<rparr>] \<and>
      fst (generate_and_save_therapy_outline self mid tr) =
        save_therapy_outline self \<lparr>patient_id = Memory.patient_id m, memory_id = mid, steps = ss\<rparr> \<and>
      (\<forall>d s. v = PyDict d \<and> map_of d ''steps'' = Some (PyStr s) \<longrightarrow> ss = []) \<and>
      (\<forall>d kv. v = PyDict d \<and> map_of d ''steps'' = Some (PyDict kv) \<longrightarrow> ss = []) \<and>
      (\<forall>d entries. v = PyDict d \<and> map_of d ''steps'' = Some (PyList entries) \<longrightarrow>
         length ss = length entries)"
  proof (intro exI [of _ ss] conjI)
    show "saved_outlines (snd (generate_and_save_therapy_outline self mid tr)) =
        saved_outlines tr @ [\<lparr>patient_id = Memory.patient_id m, memory_id = mid, steps = ss\<rparr>]"
      by (rule run(1))
    show "fst (generate_and_save_therapy_outline self mid tr) =
        save_therapy_outline self \<lparr>patient_id = Memory.patient_id m, memory_id = mid, steps = ss\<rparr>"
      by (rule run(2))
    show "\<forall>d s. v = PyDict d \<and> map_of d ''steps'' = Some (PyStr s) \<longrightarrow> ss = []"
      by (rule all [THEN conjunct2, THEN conjunct1])
    show "\<forall>d kv. v = PyDict d \<and> map_of d ''steps'' = Some (PyDict kv) \<longrightarrow> ss = []"
      by (rule all [THEN conjunct2, THEN conjunct2, THEN conjunct1])
    show "\<forall>d entries. v = PyDict d \<and> map_of d ''steps'' = Some (PyList entries) \<longrightarrow>
        length ss = length entries"
      by (rule all [THEN conjunct2, THEN conjunct2, THEN conjunct2])
  qed
qed

lemma decode_object_without_steps:
  \<open>json_decode ''{"patient_id": "p1"}'' = Inr (PyDict [(''patient_id'', PyStr ''p1'')])\<close>
  by (simp add: decode_simps)

lemma decode_empty_object_steps:
  \<open>json_decode ''{"steps": {}}'' = Inr (PyDict [(''steps'', PyDict [])])\<close>
  by (simp add: decode_simps)

theorem rejected_steps_fail_unwrapped_else_saved_witness:
  \<open>json_loads (example_service ''{"patient_id": "p1"}'') ''{"patient_id": "p1"}'' =
     Inr (PyDict [(''patient_id'', PyStr ''p1'')]) \<and>
   steps_rejected (PyDict [(''patient_id'', PyStr ''p1'')]) \<and>
   (\<exists>e. fst (generate_and_save_therapy_outline (example_service ''{"patient_id": "p1"}'') ''m1'' []) =
          Inl e \<and>
        shape_error e \<and>
        saved_outlines
          (snd (generate_and_save_therapy_outline (example_service ''{"patient_id": "p1"}'') ''m1'' [])) =
          []) \<and>
   json_loads (example_service ''{"steps": {}}'') ''{"steps": {}}'' =
     Inr (PyDict [(''steps'', PyDict [])]) \<and>
   \<not> steps_rejected (PyDict [(''steps'', PyDict [])]) \<and>
   saved_outlines
     (snd (generate_and_save_therapy_outline (example_service ''{"steps": {}}'') ''m1'' [])) =
     [\<lparr>patient_id = ''p1'', memory_id = ''m1'', steps = []\<rparr>] \<and>
   fst (generate_and_save_therapy_outline (example_service ''{"steps": {}}'') ''m1'' []) =
     Inr ''outline-1''\<close>
proof -
  let ?reply = \<open>''{"patient_id": "p1"}''\<close>
  let ?v = "PyDict [(''patient_id'', PyStr ''p1'')]"
  let ?reply' = \<open>''{"steps": {}}''\<close>
  let ?v' = "PyDict [(''steps'', PyDict [])]"
  have parsed: "json_loads (example_service ?reply) ?reply = Inr ?v"
    by (simp add: decode_object_without_steps)
  have rejected: "steps_rejected ?v"
    by (simp add: steps_rejected_def)
  have parsed': "json_loads (example_service ?reply') ?reply' = Inr ?v'"
    by (simp add: decode_empty_object_steps)
  have accepted: "\<not> steps_rejected ?v'"
    by (simp add: steps_rejected_def)
  have "steps_rejected ?v \<longrightarrow>
      (\<exists>e. fst (generate_and_save_therapy_outline (example_service ?reply) ''m1'' []) = Inl e \<and>
           shape_error e \<and>
           saved_outlines (snd (generate_and_save_therapy_outline (example_service ?reply) ''m1'' [])) =
             saved_outlines [])"
    by (rule rejected_steps_fail_unwrapped_else_saved
          [where m = example_memory and p = example_patient
             and response = "example_response ?reply"
             and c = "\<lparr>message = \<lparr>message_content = Some ?reply\<rparr>\<rparr>" and cs = "[]"
             and out = ?reply and v = ?v, THEN conjunct1])
       (simp_all add: decode_object_without_steps)
  with rejected
  have first: "\<exists>e. fst (generate_and_save_therapy_outline (example_service ?reply) ''m1'' []) = Inl e \<and>
      shape_error e \<and>
      saved_outlines (snd (generate_and_save_therapy_outline (example_service ?reply) ''m1'' [])) = []"
    by simp
  have "\<not> steps_rejected ?v' \<longrightarrow>
      (\<exists>ss.
         saved_outlines (snd (generate_and_save_therapy_outline (example_service ?reply') ''m1'' [])) =
           saved_outlines [] @
             [\<lparr>patient_id = Memory.patient_id example_memory, memory_id = ''m1'', steps = ss\<rparr>] \<and>
         fst (generate_and_save_therapy_outline (example_service ?reply') ''m1'' []) =
           save_therapy_outline (example_service ?reply')
             \<lparr>patient_id = Memory.patient_id example_memory, memory_id = ''m1'', steps = ss\<rparr> \<and>
         (\<forall>d s. ?v' = PyDict d \<and> map_of d ''steps'' = Some (PyStr s) \<longrightarrow> ss = []) \<and>
         (\<forall>d kv. ?v' = PyDict d \<and> map_of d ''steps'' = Some (PyDict kv) \<longrightarrow> ss = []) \<and>
         (\<forall>d entries. ?v' = PyDict d \<and> map_of d ''steps'' = Some (PyList entries) \<longrightarrow>
            length ss = length entries))"
    by (rule rejected_steps_fail_unwrapped_else_saved
          [where m = example_memory and p = example_patient
             and response = "example_response ?reply'"
             and c = "\<lparr>message = \<lparr>message_content = Some ?reply'\<rparr>\<rparr>" and cs = "[]"
             and out = ?reply' and v = ?v', THEN conjunct2])
       (simp_all add: decode_empty_object_steps)
  with accepted obtain ss where
    all: "saved_outlines (snd (generate_and_save_therapy_outline (example_service ?reply') ''m1'' [])) =
        saved_outlines [] @
          [\<lparr>patient_id = Memory.patient_id example_memory, memory_id = ''m1'', steps = ss\<rparr>] \<and>
      fst (generate_and_save_therapy_outline (example_service ?reply') ''m1'' []) =
        save_therapy_outline (example_service ?reply')
          \<lparr>patient_id = Memory.patient_id example_memory, memory_id = ''m1'', steps = ss\<rparr> \<and>
      (\<forall>d s. ?v' = PyDict d \<and> map_of d ''steps'' = Some (PyStr s) \<longrightarrow> ss = []) \<and>
      (\<forall>d kv. ?v' = PyDict d \<and> map_of d ''steps'' = Some (PyDict kv) \<longrightarrow> ss = []) \<and>
      (\<forall>d entries. ?v' = PyDict d \<and> map_of d ''steps'' = Some (PyList entries) \<longrightarrow>
         length ss = length entries)"
    by (elim impE exE) assumption
  note saved = all [THEN conjunct1]
    and returned = all [THEN conjunct2, THEN conjunct1]
    and empty = all [THEN conjunct2, THEN conjunct2, THEN conjunct2, THEN conjunct1]
  from empty have "ss = []" by simp
  with saved returned
  have second: "saved_outlines
        (snd (generate_and_save_therapy_outline (example_service ?reply') ''m1'' [])) =
        [\<lparr>patient_id = ''p1'', memory_id = ''m1'', steps = []\<rparr>]"
      "fst (generate_and_save_therapy_outline (example_service ?reply') ''m1'' []) = Inr ''outline-1''"
    by simp_all
  from parsed rejected first parsed' accepted second show ?thesis
    by (intro conjI)
qed

text \<open>
  C9 as stated fails: the reply \<^verbatim>\<open>{"steps": ""}\<close> is valid JSON and is not an outline
  document, yet the run succeeds and saves an outline without steps, because iterating
  the empty string yields nothing.
\<close>

lemma decode_empty_string_steps:
  \<open>json_decode ''{"steps": ""}'' = Inr (PyDict [(''steps'', PyStr [])])\<close>
  by (simp add: decode_simps)

theorem empty_string_as_steps_is_saved:
  \<open>json_loads (example_service ''{"steps": ""}'') ''{"steps": ""}'' =
     Inr (PyDict [(''steps'', PyStr [])]) \<and>
   \<not> outline_document (PyDict [(''steps'', PyStr [])]) \<and>
   generate_and_save_therapy_outline (example_service ''{"steps": ""}'') ''m1'' [] =
     (Inr ''outline-1'',
      [LogInfo ''Generating therapy outline for memory: %s'' ''m1'',
       GetMemoryById ''m1'', GetPatientById ''p1'',
       ChatCompletionsCreate
         (request_for (example_service ''{"steps": ""}'') ''m1'' example_memory example_patient),
       LogInfo ''Therapy outline generated by OpenAI: %s'' ''{"steps": ""}'',
       LogInfo ''Saving therapy outline for memory: %s'' ''m1'',
       SaveTherapyOutline \<lparr>patient_id = ''p1'', memory_id = ''m1'', steps = []\<rparr>])\<close>
proof -
  let ?reply = \<open>''{"steps": ""}''\<close>
  have "generate_and_save_therapy_outline (example_service ?reply) ''m1'' [] =
     (Inr ''outline-1'',
      [LogInfo ''Generating therapy outline for memory: %s'' ''m1'',
       GetMemoryById ''m1'', GetPatientById ''p1'',
       ChatCompletionsCreate (request_for (example_service ?reply) ''m1'' example_memory example_patient),
       LogInfo ''Therapy outline generated by OpenAI: %s'' ?reply,
       LogInfo ''Saving therapy outline for memory: %s'' ''m1'',
       SaveTherapyOutline \<lparr>patient_id = ''p1'', memory_id = ''m1'', steps = []\<rparr>])"
    by (simp add: run_replied [where m = example_memory and p = example_patient
          and response = "example_response ?reply"
          and c = "\<lparr>message = \<lparr>message_content = Some ?reply\<rparr>\<rparr>" and cs = "[]"]
        parse_json_output_valid [where v = "PyDict [(''steps'', PyStr [])]"]
        decode_empty_string_steps on_success_def str_of_optional_def)
  moreover have "\<not> outline_document (PyDict [(''steps'', PyStr [])])"
    by (simp add: outline_document_def)
  ultimately show ?thesis
    by (simp add: decode_empty_string_steps)
qed

section \<open>The identifiers in the reply are not used\<close>

text \<open>
  C10. Take two runs for the same memory id on services that share the memory service,
  the patient service and the repository. If both replies parse to objects with the same
  value under \<^verbatim>\<open>steps\<close>, whatever their other keys (\<^verbatim>\<open>patient_id\<close> and \<^verbatim>\<open>memory_id\<close> among
  them) hold, then both runs save the same outlines and return the same outcome: the
  identifiers of the outline come from the resolved memory and the input id only.
\<close>

theorem saved_outline_independent_of_reply_identifiers:
  assumes "get_memory_by_id self mid = Inr (Some m)"
    and "get_patient_by_id self (Memory.patient_id m) = Inr p"
    and "get_memory_by_id self' = get_memory_by_id self"
    and "get_patient_by_id self' = get_patient_by_id self"
    and "save_therapy_outline self' = save_therapy_outline self"
    and "chat_completions_create self (request_for self mid m p) = Inr response"
    and "choices response = c # cs"
    and "message_content (message c) = Some out"
    and "json_loads self out = Inr (PyDict d)"
    and "chat_completions_create self' (request_for self' mid m p) = Inr response'"
    and "choices response' = c' # cs'"
    and "message_content (message c') = Some out'"
    and "json_loads self' out' = Inr (PyDict d')"
    and "map_of d ''steps'' = map_of d' ''steps''"
  shows "saved_outlines (snd (generate_and_save_therapy_outline self mid tr)) =
           saved_outlines (snd (generate_and_save_therapy_outline self' mid tr)) \<and>
         fst (generate_and_save_therapy_outline self mid tr) =
           fst (generate_and_save_therapy_outline self' mid tr)"
proof -
  have m': "get_memory_by_id self' mid = Inr (Some m)"
    and p': "get_patient_by_id self' (Memory.patient_id m) = Inr p"
    using assms(1-4) by simp_all
  have same: "getitem (PyDict d) ''steps'' = getitem (PyDict d') ''steps''"
    using assms(14) by simp
  show ?thesis
    by (simp add: run_replied [OF assms(1,2,6,7)] run_replied [OF m' p' assms(10,11)]
        assms(8,12) parse_json_output_valid [OF assms(9)] parse_json_output_valid [OF assms(13)]
        assms(5) on_success_def same del: getitem.simps split: sum.splits)
qed

lemma decode_no_steps_a:
  \<open>json_decode ''{"patient_id":"p1","memory_id":"m1","steps":[]}'' =
     Inr (PyDict [(''patient_id'', PyStr ''p1''), (''memory_id'', PyStr ''m1''), (''steps'', PyList [])])\<close>
  by (simp add: decode_simps)

lemma decode_no_steps_b:
  \<open>json_decode ''{"steps":[],"memory_id":"other","patient_id":7}'' =
     Inr (PyDict [(''steps'', PyList []), (''memory_id'', PyStr ''other''), (''patient_id'', PyInt 7)])\<close>
  by (simp add: decode_simps)

theorem saved_outline_independent_of_reply_identifiers_witness:
  \<open>saved_outlines
     (snd (generate_and_save_therapy_outline
             (example_service ''{"patient_id":"p1","memory_id":"m1","steps":[]}'') ''m1'' [])) =
   saved_outlines
     (snd (generate_and_save_therapy_outline
             (example_service ''{"steps":[],"memory_id":"other","patient_id":7}'') ''m1'' [])) \<and>
   fst (generate_and_save_therapy_outline
          (example_service ''{"patient_id":"p1","memory_id":"m1","steps":[]}'') ''m1'' []) =
   fst (generate_and_save_therapy_outline
          (example_service ''{"steps":[],"memory_id":"other","patient_id":7}'') ''m1'' []) \<and>
   saved_outlines
     (snd (generate_and_save_therapy_outline
             (example_service ''{"steps":[],"memory_id":"other","patient_id":7}'') ''m1'' [])) =
   [\<lparr>patient_id = ''p1'', memory_id = ''m1'', steps = []\<rparr>]\<close>
proof -
  let ?a = \<open>''{"patient_id":"p1","memory_id":"m1","steps":[]}''\<close>
  let ?b = \<open>''{"steps":[],"memory_id":"other","patient_id":7}''\<close>
  have same: "saved_outlines (snd (generate_and_save_therapy_outline (example_service ?a) ''m1'' [])) =
      saved_outlines (snd (generate_and_save_therapy_outline (example_service ?b) ''m1'' [])) \<and>
    fst (generate_and_save_therapy_outline (example_service ?a) ''m1'' []) =
      fst (generate_and_save_therapy_outline (example_service ?b) ''m1'' [])"
    by (rule saved_outline_independent_of_reply_identifiers
          [where m = example_memory and p = example_patient
             and response = "example_response ?a"
             and c = "\<lparr>message = \<lparr>message_content = Some ?a\<rparr>\<rparr>" and cs = "[]" and out = ?a
             and d = "[(''patient_id'', PyStr ''p1''), (''memory_id'', PyStr ''m1''), (''steps'', PyList [])]"
             and response' = "example_response ?b"
             and c' = "\<lparr>message = \<lparr>message_content = Some ?b\<rparr>\<rparr>" and cs' = "[]" and out' = ?b
             and d' = "[(''steps'', PyList []), (''memory_id'', PyStr ''other''), (''patient_id'', PyInt 7)]"])
       (simp_all add: decode_no_steps_a decode_no_steps_b, simp_all add: example_service_def)
  have "saved_outlines (snd (generate_and_save_therapy_outline (example_service ?b) ''m1'' [])) =
      [\<lparr>patient_id = ''p1'', memory_id = ''m1'', steps = []\<rparr>]"
    by (simp add: run_replied [where m = example_memory and p = example_patient
          and response = "example_response ?b"
          and c = "\<lparr>message = \<lparr>message_content = Some ?b\<rparr>\<rparr>" and cs = "[]"]
        parse_json_output_valid
          [where v = "PyDict [(''steps'', PyList []), (''memory_id'', PyStr ''other''), (''patient_id'', PyInt 7)]"]
        decode_no_steps_b on_success_def)
  with same show ?thesis by simp
qed

section \<open>The call on the model\<close>

lemma generate_therapy_outline_cases:
  obtains (raises) e where
      "chat_completions_create self
         (therapy_outline_request (construct_therapy_outline_prompt (str_of_dump self) data)) = Inl e"
    | (no_choice) response where
      "chat_completions_create self
         (therapy_outline_request (construct_therapy_outline_prompt (str_of_dump self) data)) = Inr response"
      "choices response = []"
    | (returns) response c cs where
      "chat_completions_create self
         (therapy_outline_request (construct_therapy_outline_prompt (str_of_dump self) data)) = Inr response"
      "choices response = c # cs"
proof (cases "chat_completions_create self
    (therapy_outline_request (construct_therapy_outline_prompt (str_of_dump self) data))")
  case (Inl e)
  then show ?thesis by (rule raises)
next
  case (Inr response)
  then show ?thesis
    by (cases "choices response") (auto intro: no_choice returns)
qed

lemma generate_therapy_outline_model_calls:
  "model_calls (snd (generate_therapy_outline self data tr)) =
     model_calls tr @
       [therapy_outline_request (construct_therapy_outline_prompt (str_of_dump self) data)]"
  by (cases rule: generate_therapy_outline_cases [of self data])
     (simp_all add: generate_therapy_outline_raises generate_therapy_outline_no_choice
        generate_therapy_outline_returns)

lemma generate_therapy_outline_saved:
  "saved_outlines (snd (generate_therapy_outline self data tr)) = saved_outlines tr"
  by (cases rule: generate_therapy_outline_cases [of self data])
     (simp_all add: generate_therapy_outline_raises generate_therapy_outline_no_choice
        generate_therapy_outline_returns)

text \<open>The outcomes of a whole run: it ends before the model is called, or it calls the
  model once; and it ends with an exception and without a save, or with one save whose
  outcome it returns.\<close>

lemma run_model_calls:
  "model_calls (snd (generate_and_save_therapy_outline self mid tr)) = model_calls tr \<or>
   (\<exists>m p. get_memory_by_id self mid = Inr (Some m) \<and>
          get_patient_by_id self (Memory.patient_id m) = Inr p \<and>
          model_calls (snd (generate_and_save_therapy_outline self mid tr)) =
            model_calls tr @ [request_for self mid m p])"
proof (cases "get_memory_by_id self mid")
  case (Inl e)
  then show ?thesis
    by (simp add: generate_and_save_therapy_outline_def)
next
  case (Inr memory)
  show ?thesis
  proof (cases memory)
    case None
    with Inr show ?thesis
      by (simp add: generate_and_save_therapy_outline_def getattr_patient_id_def)
  next
    case (Some m)
    show ?thesis
    proof (cases "get_patient_by_id self (Memory.patient_id m)")
      case (Inl e)
      with Inr Some show ?thesis
        by (simp add: generate_and_save_therapy_outline_def getattr_patient_id_def)
    next
      case (Inr p)
      let ?data = "\<lparr>input_data.memory_id = mid, memory_details = memory_model_dump m,
                    patient_details = patient_model_dump p\<rparr>"
      let ?tr = "tr @ [LogInfo ''Generating therapy outline for memory: %s'' mid,
                       GetMemoryById mid, GetPatientById (Memory.patient_id m)]"
      have m: "get_memory_by_id self mid = Inr (Some m)"
        using \<open>get_memory_by_id self mid = Inr memory\<close> Some by simp
      have "model_calls (snd (generate_and_save_therapy_outline self mid tr)) =
          model_calls (snd (generate_therapy_outline self ?data ?tr))"
        by (simp add: run_resolved [OF m Inr] split: prod.splits sum.splits)
      then have "model_calls (snd (generate_and_save_therapy_outline self mid tr)) =
          model_calls tr @ [request_for self mid m p]"
        by (simp add: generate_therapy_outline_model_calls request_for_def)
      with m Inr show ?thesis by blast
    qed
  qed
qed

lemma run_saved:
  "(\<exists>e. fst (generate_and_save_therapy_outline self mid tr) = Inl e \<and>
        saved_outlines (snd (generate_and_save_therapy_outline self mid tr)) = saved_outlines tr) \<or>
   (\<exists>outline.
      fst (generate_and_save_therapy_outline self mid tr) = save_therapy_outline self outline \<and>
      saved_outlines (snd (generate_and_save_therapy_outline self mid tr)) =
        saved_outlines tr @ [outline])"
proof (cases "get_memory_by_id self mid")
  case (Inl e)
  then show ?thesis
    by (simp add: generate_and_save_therapy_outline_def)
next
  case (Inr memory)
  show ?thesis
  proof (cases memory)
    case None
    with Inr show ?thesis
      by (simp add: generate_and_save_therapy_outline_def getattr_patient_id_def)
  next
    case (Some m)
    show ?thesis
    proof (cases "get_patient_by_id self (Memory.patient_id m)")
      case (Inl e)
      with Inr Some show ?thesis
        by (simp add: generate_and_save_therapy_outline_def getattr_patient_id_def)
    next
      case (Inr p)
      let ?data = "\<lparr>input_data.memory_id = mid, memory_details = memory_model_dump m,
                    patient_details = patient_model_dump p\<rparr>"
      let ?tr = "tr @ [LogInfo ''Generating therapy outline for memory: %s'' mid,
                       GetMemoryById mid, GetPatientById (Memory.patient_id m)]"
      have m: "get_memory_by_id self mid = Inr (Some m)"
        using \<open>get_memory_by_id self mid = Inr memory\<close> Some by simp
      obtain r tr' where g: "generate_therapy_outline self ?data ?tr = (r, tr')"
        by (cases "generate_therapy_outline self ?data ?tr")
      with generate_therapy_outline_saved [of self ?data ?tr]
      have tr': "saved_outlines tr' = saved_outlines tr" by simp
      show ?thesis
        by (simp add: run_resolved [OF m Inr] g tr' split: sum.splits)
    qed
  qed
qed

text \<open>
  C5. Every call of \<open>generate_therapy_outline\<close> sends the model one request: the model
  \<^verbatim>\<open>gpt-4o\<close>, one system message that frames the assistant as a specialist in reminiscence
  therapy, one user message whose text is the constructed prompt, and the temperature
  0.2. When the call returns choices, the output that is parsed is the message content
  of the first choice. Every request that a run of \<open>generate_and_save_therapy_outline\<close>
  sends to the model has this form.
\<close>

theorem model_request_and_parsed_output:
  "model_calls (snd (generate_therapy_outline self data tr)) =
     model_calls tr @
       [\<lparr>model = ''gpt-4o'',
         messages =
           [\<lparr>role = ''system'',
             content = [\<lparr>part_type = ''text'',
                         part_text = ''You are an AI assistant specializing in reminiscence therapy.''\<rparr>]\<rparr>,
            \<lparr>role = ''user'',
             content = [\<lparr>part_type = ''text'',
                         part_text = construct_therapy_outline_prompt (str_of_dump self) data\<rparr>]\<rparr>],
         temperature = 0.2\<rparr>] \<and>
   (\<forall>response c cs.
      chat_completions_create self
        (therapy_outline_request (construct_therapy_outline_prompt (str_of_dump self) data)) =
        Inr response \<and>
      choices response = c # cs \<longrightarrow>
      fst (generate_therapy_outline self data tr) =
        parse_json_output self (message_content (message c))) \<and>
   (\<forall>r \<in> set (model_calls (snd (generate_and_save_therapy_outline self mid []))).
      \<exists>prompt.
        r = \<lparr>model = ''gpt-4o'',
              messages =
                [\<lparr>role = ''system'',
                  content = [\<lparr>part_type = ''text'',
                              part_text = ''You are an AI assistant specializing in reminiscence therapy.''\<rparr>]\<rparr>,
                 \<lparr>role = ''user'', content = [\<lparr>part_type = ''text'', part_text = prompt\<rparr>]\<rparr>],
              temperature = 0.2\<rparr>)"
proof (intro conjI allI impI ballI)
  show "model_calls (snd (generate_therapy_outline self data tr)) =
     model_calls tr @
       [\<lparr>model = ''gpt-4o'',
         messages =
           [\<lparr>role = ''system'',
             content = [\<lparr>part_type = ''text'',
                         part_text = ''You are an AI assistant specializing in reminiscence therapy.''\<rparr>]\<rparr>,
            \<lparr>role = ''user'',
             content = [\<lparr>part_type = ''text'',
                         part_text = construct_therapy_outline_prompt (str_of_dump self) data\<rparr>]\<rparr>],
         temperature = 0.2\<rparr>]"
    by (simp add: generate_therapy_outline_model_calls therapy_outline_request_def)
next
  fix response c cs
  assume "chat_completions_create self
        (therapy_outline_request (construct_therapy_outline_prompt (str_of_dump self) data)) =
        Inr response \<and> choices response = c # cs"
  then show "fst (generate_therapy_outline self data tr) =
      parse_json_output self (message_content (message c))"
    by (simp add: generate_therapy_outline_returns [where cs = cs])
next
  fix r
  assume r: "r \<in> set (model_calls (snd (generate_and_save_therapy_outline self mid [])))"
  from run_model_calls [of self mid "[]"] r obtain m p where "r = request_for self mid m p"
    by auto
  then show "\<exists>prompt.
        r = \<lparr>model = ''gpt-4o'',
              messages =
                [\<lparr>role = ''system'',
                  content = [\<lparr>part_type = ''text'',
                              part_text = ''You are an AI assistant specializing in reminiscence therapy.''\<rparr>]\<rparr>,
                 \<lparr>role = ''user'', content = [\<lparr>part_type = ''text'', part_text = prompt\<rparr>]\<rparr>],
              temperature = 0.2\<rparr>"
    by (auto simp: request_for_def therapy_outline_request_def)
qed

theorem model_request_and_parsed_output_witness:
  "chat_completions_create (example_service example_text)
     (request_for (example_service example_text) ''m1'' example_memory example_patient) =
     Inr (example_response example_text) \<and>
   fst (generate_therapy_outline (example_service example_text)
          \<lparr>input_data.memory_id = ''m1'', memory_details = memory_model_dump example_memory,
           patient_details = patient_model_dump example_patient\<rparr> []) =
     Inr example_document \<and>
   model_calls (snd (generate_and_save_therapy_outline (example_service example_text) ''m1'' [])) =
     [request_for (example_service example_text) ''m1'' example_memory example_patient] \<and>
   temperature (request_for (example_service example_text) ''m1'' example_memory example_patient) = 0.2 \<and>
   map role (messages (request_for (example_service example_text) ''m1'' example_memory example_patient)) =
     [''system'', ''user'']"
proof -
  let ?self = "example_service example_text"
  let ?data = "\<lparr>input_data.memory_id = ''m1'', memory_details = memory_model_dump example_memory,
                patient_details = patient_model_dump example_patient\<rparr>"
  let ?c = "\<lparr>message = \<lparr>message_content = Some example_text\<rparr>\<rparr>"
  note inst = model_request_and_parsed_output [of ?self ?data "[]" "''m1''"]
  from inst have "chat_completions_create ?self
        (therapy_outline_request (construct_therapy_outline_prompt (str_of_dump ?self) ?data)) =
        Inr (example_response example_text) \<and>
      choices (example_response example_text) = ?c # [] \<longrightarrow>
      fst (generate_therapy_outline ?self ?data []) =
        parse_json_output ?self (message_content (message ?c))"
    by blast
  then have parsed: "fst (generate_therapy_outline ?self ?data []) = Inr example_document"
    by (simp add: parse_json_output_def decode_example_text)
  have calls: "model_calls (snd (generate_and_save_therapy_outline ?self ''m1'' [])) =
      [request_for ?self ''m1'' example_memory example_patient]"
    by (simp add: run_replied [where m = example_memory and p = example_patient
          and response = "example_response example_text" and c = ?c and cs = "[]"]
        split: sum.splits)
  show ?thesis
    using parsed calls
    by (simp add: request_for_def therapy_outline_request_def)
qed

section \<open>One attempt, and no failure is swallowed\<close>

text \<open>
  C8. In every run of \<open>generate_and_save_therapy_outline\<close> the model is called at most
  once. A failure of the memory service, of the patient service, of the model call or of
  the repository's save is the outcome of the run, as it was raised. A failure of
  \<^verbatim>\<open>json.loads\<close> is the outcome too: wrapped once, in the \<^verbatim>\<open>ValueError\<close> of line 138, when it
  is a \<^verbatim>\<open>JSONDecodeError\<close>, and as it was raised otherwise.
\<close>

theorem one_model_call_and_failures_surface:
  "length (model_calls (snd (generate_and_save_therapy_outline self mid tr))) \<le>
     length (model_calls tr) + 1 \<and>
   (get_memory_by_id self mid = Inl e \<longrightarrow>
      fst (generate_and_save_therapy_outline self mid tr) = Inl e) \<and>
   (\<forall>m. get_memory_by_id self mid = Inr (Some m) \<and>
        get_patient_by_id self (Memory.patient_id m) = Inl e \<longrightarrow>
        fst (generate_and_save_therapy_outline self mid tr) = Inl e) \<and>
   (\<forall>m p. get_memory_by_id self mid = Inr (Some m) \<and>
          get_patient_by_id self (Memory.patient_id m) = Inr p \<and>
          chat_completions_create self (request_for self mid m p) = Inl e \<longrightarrow>
          fst (generate_and_save_therapy_outline self mid tr) = Inl e) \<and>
   (\<forall>m p response c cs out.
      get_memory_by_id self mid = Inr (Some m) \<and>
      get_patient_by_id self (Memory.patient_id m) = Inr p \<and>
      chat_completions_create self (request_for self mid m p) = Inr response \<and>
      choices response = c # cs \<and>
      message_content (message c) = Some out \<and>
      json_loads self out = Inl e \<longrightarrow>
      fst (generate_and_save_therapy_outline self mid tr) =
        Inl (case e of
               JSONDecodeError s \<Rightarrow> ValueError (''Invalid JSON output from OpenAI: '' @ s)
             | _ \<Rightarrow> e)) \<and>
   (\<forall>outline.
      saved_outlines (snd (generate_and_save_therapy_outline self mid tr)) =
        saved_outlines tr @ [outline] \<and>
      save_therapy_outline self outline = Inl e \<longrightarrow>
      fst (generate_and_save_therapy_outline self mid tr) = Inl e)"
proof (intro conjI allI impI)
  from run_model_calls [of self mid tr]
  show "length (model_calls (snd (generate_and_save_therapy_outline self mid tr))) \<le>
      length (model_calls tr) + 1"
    by auto
next
  assume "get_memory_by_id self mid = Inl e"
  then show "fst (generate_and_save_therapy_outline self mid tr) = Inl e"
    by (simp add: generate_and_save_therapy_outline_def)
next
  fix m
  assume "get_memory_by_id self mid = Inr (Some m) \<and>
    get_patient_by_id self (Memory.patient_id m) = Inl e"
  then show "fst (generate_and_save_therapy_outline self mid tr) = Inl e"
    by (simp add: generate_and_save_therapy_outline_def getattr_patient_id_def)
next
  fix m p
  assume "get_memory_by_id self mid = Inr (Some m) \<and>
    get_patient_by_id self (Memory.patient_id m) = Inr p \<and>
    chat_completions_create self (request_for self mid m p) = Inl e"
  then show "fst (generate_and_save_therapy_outline self mid tr) = Inl e"
    by (simp add: run_resolved [of self mid m p] generate_therapy_outline_raises request_for_def)
next
  fix m p response c cs out
  assume a: "get_memory_by_id self mid = Inr (Some m) \<and>
    get_patient_by_id self (Memory.patient_id m) = Inr p \<and>
    chat_completions_create self (request_for self mid m p) = Inr response \<and>
    choices response = c # cs \<and>
    message_content (message c) = Some out \<and>
    json_loads self out = Inl e"
  then have "parse_json_output self (Some out) =
      Inl (case e of
             JSONDecodeError s \<Rightarrow> ValueError (''Invalid JSON output from OpenAI: '' @ s)
           | _ \<Rightarrow> e)"
    by (cases e) (simp_all add: parse_json_output_def)
  with a show "fst (generate_and_save_therapy_outline self mid tr) =
      Inl (case e of
             JSONDecodeError s \<Rightarrow> ValueError (''Invalid JSON output from OpenAI: '' @ s)
           | _ \<Rightarrow> e)"
    by (simp add: run_replied [of self mid m p response c cs] on_success_def)
next
  fix outline
  assume a: "saved_outlines (snd (generate_and_save_therapy_outline self mid tr)) =
      saved_outlines tr @ [outline] \<and>
    save_therapy_outline self outline = Inl e"
  from run_saved [of self mid tr] a
  show "fst (generate_and_save_therapy_outline self mid tr) = Inl e"
    by auto
qed

theorem one_model_call_and_failures_surface_witness:
  "fst (generate_and_save_therapy_outline
          ((example_service example_text)
             \<lparr>get_memory_by_id := \<lambda>i. Inl (OtherError ''ConnectionError'' ''memory'')\<rparr>) ''m1'' []) =
     Inl (OtherError ''ConnectionError'' ''memory'') \<and>
   fst (generate_and_save_therapy_outline
          ((example_service example_text)
             \<lparr>get_patient_by_id := \<lambda>i. Inl (OtherError ''ConnectionError'' ''patient'')\<rparr>) ''m1'' []) =
     Inl (OtherError ''ConnectionError'' ''patient'') \<and>
   fst (generate_and_save_therapy_outline
          ((example_service example_text)
             \<lparr>chat_completions_create := \<lambda>r. Inl (OtherError ''APIConnectionError'' ''model'')\<rparr>) ''m1'' []) =
     Inl (OtherError ''APIConnectionError'' ''model'') \<and>
   fst (generate_and_save_therapy_outline (example_service ''not json'') ''m1'' []) =
     Inl (ValueError ''Invalid JSON output from OpenAI: Expecting value: line 1 column 1 (char 0)'') \<and>
   saved_outlines
     (snd (generate_and_save_therapy_outline
             ((example_service example_text)
                \<lparr>save_therapy_outline := \<lambda>outline. Inl (OtherError ''WriteError'' ''outline'')\<rparr>) ''m1'' [])) =
     [example_outline] \<and>
   fst (generate_and_save_therapy_outline
          ((example_service example_text)
             \<lparr>save_therapy_outline := \<lambda>outline. Inl (OtherError ''WriteError'' ''outline'')\<rparr>) ''m1'' []) =
     Inl (OtherError ''WriteError'' ''outline'') \<and>
   length (model_calls (snd (generate_and_save_therapy_outline (example_service example_text) ''m1'' []))) \<le> 1"
proof -
  let ?memory_down = "(example_service example_text)
     \<lparr>get_memory_by_id := \<lambda>i. Inl (OtherError ''ConnectionError'' ''memory'')\<rparr>"
  let ?patient_down = "(example_service example_text)
     \<lparr>get_patient_by_id := \<lambda>i. Inl (OtherError ''ConnectionError'' ''patient'')\<rparr>"
  let ?model_down = "(example_service example_text)
     \<lparr>chat_completions_create := \<lambda>r. Inl (OtherError ''APIConnectionError'' ''model'')\<rparr>"
  let ?save_down = "(example_service example_text)
     \<lparr>save_therapy_outline := \<lambda>outline. Inl (OtherError ''WriteError'' ''outline'')\<rparr>"
  let ?c = "\<lparr>message = \<lparr>message_content = Some ''not json''\<rparr>\<rparr>"
  have 1: "fst (generate_and_save_therapy_outline ?memory_down ''m1'' []) =
      Inl (OtherError ''ConnectionError'' ''memory'')"
    using one_model_call_and_failures_surface
      [of ?memory_down "''m1''" "[]" "OtherError ''ConnectionError'' ''memory''"]
    by simp
  have 2: "fst (generate_and_save_therapy_outline ?patient_down ''m1'' []) =
      Inl (OtherError ''ConnectionError'' ''patient'')"
    using one_model_call_and_failures_surface
      [of ?patient_down "''m1''" "[]" "OtherError ''ConnectionError'' ''patient''"]
    by (simp add: example_service_def example_memory_def)
  have 3: "fst (generate_and_save_therapy_outline ?model_down ''m1'' []) =
      Inl (OtherError ''APIConnectionError'' ''model'')"
    using one_model_call_and_failures_surface
      [of ?model_down "''m1''" "[]" "OtherError ''APIConnectionError'' ''model''"]
    by (simp add: example_service_def example_memory_def)
  have "get_memory_by_id (example_service ''not json'') ''m1'' = Inr (Some example_memory) \<and>
      get_patient_by_id (example_service ''not json'') (Memory.patient_id example_memory) =
        Inr example_patient \<and>
      chat_completions_create (example_service ''not json'')
        (request_for (example_service ''not json'') ''m1'' example_memory example_patient) =
        Inr (example_response ''not json'') \<and>
      choices (example_response ''not json'') = ?c # [] \<and>
      message_content (message ?c) = Some ''not json'' \<and>
      json_loads (example_service ''not json'') ''not json'' =
        Inl (JSONDecodeError ''Expecting value: line 1 column 1 (char 0)'')"
    by (simp add: decode_not_json)
  with one_model_call_and_failures_surface
      [of "example_service ''not json''" "''m1''" "[]"
          "JSONDecodeError ''Expecting value: line 1 column 1 (char 0)''"]
  have 4: "fst (generate_and_save_therapy_outline (example_service ''not json'') ''m1'' []) =
      Inl (case JSONDecodeError ''Expecting value: line 1 column 1 (char 0)'' of
             JSONDecodeError s \<Rightarrow> ValueError (''Invalid JSON output from OpenAI: '' @ s)
           | _ \<Rightarrow> JSONDecodeError ''Expecting value: line 1 column 1 (char 0)'')"
    by blast
  have saved: "saved_outlines (snd (generate_and_save_therapy_outline ?save_down ''m1'' [])) =
      [example_outline]"
    by (simp add: run_replied [where m = example_memory and p = example_patient
          and response = "example_response example_text"
          and c = "\<lparr>message = \<lparr>message_content = Some example_text\<rparr>\<rparr>" and cs = "[]"]
        example_service_def example_memory_def example_response_def example_outline_def
        parse_json_output_def decode_example_text
        steps_of_example_document [unfolded on_success_def] on_success_def)
  with one_model_call_and_failures_surface
      [of ?save_down "''m1''" "[]" "OtherError ''WriteError'' ''outline''"]
  have 5: "fst (generate_and_save_therapy_outline ?save_down ''m1'' []) =
      Inl (OtherError ''WriteError'' ''outline'')"
    by simp
  have 6: "length (model_calls
      (snd (generate_and_save_therapy_outline (example_service example_text) ''m1'' []))) \<le> 1"
    using one_model_call_and_failures_surface
      [of "example_service example_text" "''m1''" "[]" "OtherError [] []"]
    by simp
  from 1 2 3 4 saved 5 6 show ?thesis by simp
qed

section \<open>The prompt\<close>

text \<open>A code fence is three backquotes, so an occurrence that starts in one piece of text
  and ends in the next needs a backquote on both sides of the seam.\<close>

lemma set_code_fence: "set code_fence = {CHR 0x60}"
  by (simp add: code_fence_def)

lemma sublist_code_fence_append_left:
  assumes "ys = [] \<or> last ys \<noteq> CHR 0x60"
  shows "sublist code_fence (ys @ zs) \<longleftrightarrow> sublist code_fence ys \<or> sublist code_fence zs"
proof
  assume "sublist code_fence (ys @ zs)"
  then consider "sublist code_fence ys" | "sublist code_fence zs"
    | xs1 xs2 where "code_fence = xs1 @ xs2" "suffix xs1 ys" "prefix xs2 zs"
    by (auto simp: sublist_append)
  then show "sublist code_fence ys \<or> sublist code_fence zs"
  proof cases
    case 3
    show ?thesis
    proof (cases xs1)
      case Nil
      with 3 show ?thesis by auto
    next
      case (Cons x xs)
      with 3(2) obtain ps where ys: "ys = ps @ xs1" and "xs1 \<noteq> []"
        by (auto simp: suffix_def)
      then have "last ys = last xs1" by simp
      moreover from \<open>xs1 \<noteq> []\<close> have "last xs1 \<in> set xs1" by simp
      with 3(1) set_code_fence have "last xs1 = CHR 0x60"
        by (metis UnCI set_append singletonD)
      ultimately show ?thesis using assms ys \<open>xs1 \<noteq> []\<close> by simp
    qed
  qed auto
next
  assume "sublist code_fence ys \<or> sublist code_fence zs"
  then show "sublist code_fence (ys @ zs)"
    by (auto simp: sublist_append)
qed

lemma sublist_code_fence_append_right:
  assumes "zs = [] \<or> hd zs \<noteq> CHR 0x60"
  shows "sublist code_fence (ys @ zs) \<longleftrightarrow> sublist code_fence ys \<or> sublist code_fence zs"
proof
  assume "sublist code_fence (ys @ zs)"
  then consider "sublist code_fence ys" | "sublist code_fence zs"
    | xs1 xs2 where "code_fence = xs1 @ xs2" "suffix xs1 ys" "prefix xs2 zs"
    by (auto simp: sublist_append)
  then show "sublist code_fence ys \<or> sublist code_fence zs"
  proof cases
    case 3
    show ?thesis
    proof (cases xs2)
      case Nil
      with 3 show ?thesis by auto
    next
      case (Cons x xs)
      with 3(3) obtain ss where zs: "zs = xs2 @ ss" and "xs2 \<noteq> []"
        by (auto simp: prefix_def)
      then have "hd zs = hd xs2" by simp
      moreover from \<open>xs2 \<noteq> []\<close> have "hd xs2 \<in> set xs2" by simp
      with 3(1) set_code_fence have "hd xs2 = CHR 0x60"
        by (metis UnCI set_append singletonD)
      ultimately show ?thesis using assms zs \<open>xs2 \<noteq> []\<close> by simp
    qed
  qed auto
next
  assume "sublist code_fence ys \<or> sublist code_fence zs"
  then show "sublist code_fence (ys @ zs)"
    by (auto simp: sublist_append)
qed

lemma has_code_fence_iff: "has_code_fence xs \<longleftrightarrow> sublist code_fence xs"
proof (induction xs rule: has_code_fence.induct)
  case (1 a b c cs)
  then show ?case
    by (auto simp: sublist_Cons_right [of _ a] code_fence_def)
qed (auto simp: code_fence_def sublist_Cons_right dest: sublist_length_le)

text \<open>The literal text of the template: no piece holds a code fence, and none has a
  backquote next to a replacement field.\<close>

lemma template_head_facts:
  "\<not> has_code_fence template_head" "template_head \<noteq> []" "last template_head = CHR '' ''"
  by (simp_all add: template_head_def)

lemma template_middle_facts:
  "\<not> has_code_fence template_middle" "template_middle \<noteq> []"
  "hd template_middle = CHR ''\<newline>''" "last template_middle = CHR '' ''"
  by (simp_all add: template_middle_def)

lemma template_tail_facts:
  "\<not> has_code_fence template_tail" "template_tail \<noteq> []" "hd template_tail = CHR ''\<newline>''"
  by (simp_all add: template_tail_def)

lemma prompt_code_fence_iff:
  "sublist code_fence (construct_therapy_outline_prompt str data) \<longleftrightarrow>
     sublist code_fence (str (memory_details data)) \<or>
     sublist code_fence (str (patient_details data))"
proof -
  let ?md = "str (memory_details data)" and ?pd = "str (patient_details data)"
  have "sublist code_fence (template_head @ ?md @ template_middle @ ?pd @ template_tail) \<longleftrightarrow>
      sublist code_fence (?md @ template_middle @ ?pd @ template_tail)"
    using template_head_facts
    by (simp add: sublist_code_fence_append_left has_code_fence_iff)
  also have "\<dots> \<longleftrightarrow> sublist code_fence ?md \<or>
      sublist code_fence (template_middle @ ?pd @ template_tail)"
    using template_middle_facts
    by (simp add: sublist_code_fence_append_right)
  also have "sublist code_fence (template_middle @ ?pd @ template_tail) \<longleftrightarrow>
      sublist code_fence (?pd @ template_tail)"
    using template_middle_facts
    by (simp add: sublist_code_fence_append_left has_code_fence_iff)
  also have "sublist code_fence (?pd @ template_tail) \<longleftrightarrow> sublist code_fence ?pd"
    using template_tail_facts
    by (simp add: sublist_code_fence_append_right has_code_fence_iff)
  finally show ?thesis
    by (simp add: construct_therapy_outline_prompt_def)
qed

text \<open>
  C4, as the code has it. For every payload, the prompt contains the rendering of the
  memory details and the rendering of the patient details, and it contains a markdown
  code fence exactly when one of these two renderings does: the literal text around
  them has none.
\<close>

theorem prompt_contains_details_and_only_their_code_fences:
  "sublist (str (memory_details data)) (construct_therapy_outline_prompt str data) \<and>
   sublist (str (patient_details data)) (construct_therapy_outline_prompt str data) \<and>
   (sublist code_fence (construct_therapy_outline_prompt str data) \<longleftrightarrow>
      sublist code_fence (str (memory_details data)) \<or>
      sublist code_fence (str (patient_details data)))"
proof (intro conjI)
  show "sublist (str (memory_details data)) (construct_therapy_outline_prompt str data)"
    by (simp add: construct_therapy_outline_prompt_def)
  have "sublist (str (patient_details data))
      ((template_head @ str (memory_details data) @ template_middle) @
       str (patient_details data) @ template_tail)"
    by (rule sublist_appendI)
  then show "sublist (str (patient_details data)) (construct_therapy_outline_prompt str data)"
    by (simp add: construct_therapy_outline_prompt_def)
  show "sublist code_fence (construct_therapy_outline_prompt str data) \<longleftrightarrow>
      sublist code_fence (str (memory_details data)) \<or>
      sublist code_fence (str (patient_details data))"
    by (rule prompt_code_fence_iff)
qed

text \<open>
  C4 as stated fails. The template has no replacement field for the memory id, and
  nothing removes a code fence from the details: for the memory id \<^verbatim>\<open>m1\<close> and memory
  details whose rendering holds a fence, the prompt does not contain the id and does
  contain the fence.
\<close>

lemma no_digit_one_in_template:
  "CHR ''1'' \<notin> set template_head" "CHR ''1'' \<notin> set template_middle"
  "CHR ''1'' \<notin> set template_tail"
  by (simp_all add: template_head_def template_middle_def template_tail_def)

theorem prompt_without_memory_id_and_with_code_fence:
  \<open>\<not> sublist ''m1''
       (construct_therapy_outline_prompt id
          \<lparr>input_data.memory_id = ''m1'', memory_details = ''{"note": "```"}'',
           patient_details = ''{"name": "Ada"}''\<rparr>) \<and>
   sublist code_fence
     (construct_therapy_outline_prompt id
        \<lparr>input_data.memory_id = ''m1'', memory_details = ''{"note": "```"}'',
         patient_details = ''{"name": "Ada"}''\<rparr>)\<close>
proof
  let ?data = \<open>\<lparr>input_data.memory_id = ''m1'', memory_details = ''{"note": "```"}'',
                patient_details = ''{"name": "Ada"}''\<rparr>\<close>
  have "CHR ''1'' \<notin> set (construct_therapy_outline_prompt id ?data)"
    using no_digit_one_in_template
    by (simp add: construct_therapy_outline_prompt_def)
  then show "\<not> sublist ''m1'' (construct_therapy_outline_prompt id ?data)"
    by (auto dest: set_mono_sublist)
  have \<open>sublist code_fence (''{"note": "'' @ code_fence @ ''"}'')\<close>
    by (rule sublist_appendI)
  then have \<open>sublist code_fence ''{"note": "```"}''\<close>
    by (simp add: code_fence_def)
  then show "sublist code_fence (construct_therapy_outline_prompt id ?data)"
    by (simp add: prompt_code_fence_iff)
qed

end
